theory Spec2Isabelle
  imports Main "HOL-Library.Sublist"
begin

text \<open>
  A model of the scanner of SafeMongo: the catalog of rules \<^verbatim>\<open>unsafePatterns\<close>, the
  function \<^verbatim>\<open>scanForUnsafePatterns\<close> in its two versions, and \<^verbatim>\<open>getSeverityColor\<close>.
  The operations of the language that they call come first: the string methods
  \<^verbatim>\<open>split\<close>, \<^verbatim>\<open>trim\<close> and \<^verbatim>\<open>includes\<close>, and regular expressions with
  \<^verbatim>\<open>RegExp.prototype.test\<close>. The only state that a scan can read or write is the
  \<^verbatim>\<open>lastIndex\<close> of the \<^verbatim>\<open>RegExp\<close> objects of the rules; it is passed through the scan
  as a store.
\<close>

section \<open>JavaScript strings\<close>

text \<open>
  A JavaScript string is a finite sequence of 16-bit code units. A code unit is modelled by
  its number; the functions below compare code units and never compute one outside the
  range, so nothing depends on the bound. The scanner receives the text of an editor
  buffer: every sequence of code units is a possible input, and nothing below assumes that
  the text is ASCII or well-formed UTF-16. String literals of the source are ASCII and are
  written \<open>js ''...''\<close>.
\<close>

type_synonym code_unit = nat
type_synonym jsstring = "code_unit list"

definition js :: "string \<Rightarrow> jsstring" where
  "js cs = map of_char cs"

text \<open>The string \<^verbatim>\<open>"\n"\<close> is the one code unit LF.\<close>

definition newline :: code_unit where
  "newline = 0x000A"

text \<open>
  The ECMAScript productions \<^emph>\<open>LineTerminator\<close> (LF, CR, LS, PS) and \<^emph>\<open>WhiteSpace\<close>
  (TAB, VT, FF, SP, NBSP, ZWNBSP and the Unicode space separators).
\<close>

definition isLineTerminator :: "code_unit \<Rightarrow> bool" where
  "isLineTerminator c = (c = 0x000A \<or> c = 0x000D \<or> c = 0x2028 \<or> c = 0x2029)"

definition isWhiteSpace :: "code_unit \<Rightarrow> bool" where
  "isWhiteSpace c =
     (c = 0x0009 \<or> c = 0x000B \<or> c = 0x000C \<or> c = 0x0020 \<or> c = 0x00A0 \<or> c = 0xFEFF \<or>
      c = 0x1680 \<or> (0x2000 \<le> c \<and> c \<le> 0x200A) \<or> c = 0x202F \<or> c = 0x205F \<or> c = 0x3000)"

text \<open>
  \<^verbatim>\<open>String.prototype.trim\<close> removes leading and trailing white space and line terminators.
\<close>

definition trim :: "jsstring \<Rightarrow> jsstring" where
  "trim s =
     rev (dropWhile (\<lambda>c. isWhiteSpace c \<or> isLineTerminator c)
       (rev (dropWhile (\<lambda>c. isWhiteSpace c \<or> isLineTerminator c) s)))"

text \<open>
  \<^verbatim>\<open>String.prototype.split\<close> with a separator of one code unit and no limit: the pieces
  between the occurrences of the separator, from left to right. The piece that is being
  read is kept in reverse. The empty string splits into one empty piece.
\<close>

fun split_from :: "code_unit \<Rightarrow> jsstring \<Rightarrow> jsstring \<Rightarrow> jsstring list" where
  "split_from sep piece [] = [rev piece]"
| "split_from sep piece (c # cs) =
     (if c = sep then rev piece # split_from sep [] cs
      else split_from sep (c # piece) cs)"

definition str_split :: "jsstring \<Rightarrow> code_unit \<Rightarrow> jsstring list" where
  "str_split s sep = split_from sep [] s"

text \<open>
  \<^verbatim>\<open>String.prototype.includes\<close>: does the search string occur at some position?
\<close>

fun str_includes :: "jsstring \<Rightarrow> jsstring \<Rightarrow> bool" where
  "str_includes [] t = (t = [])"
| "str_includes (c # cs) t = (prefix t (c # cs) \<or> str_includes cs t)"

section \<open>Regular expressions\<close>

subsection \<open>Patterns\<close>

text \<open>
  The abstract syntax of the patterns, for the constructs the catalog uses: characters,
  \<^verbatim>\<open>.\<close>, character classes with ranges and the escapes \<^verbatim>\<open>\s\<close> and \<^verbatim>\<open>\w\<close>, sequence,
  alternation, capture groups, quantifiers (greedy and lazy, with bounds), \<^verbatim>\<open>\b\<close>, and
  negative lookahead and lookbehind. No pattern of the catalog has a backreference or an
  anchor. The characters of a pattern are ASCII.
\<close>

datatype ClassAtom =
    ClassChar char
  | ClassRange char char
  | ClassSpace
  | ClassWord

datatype regex =
    Empty
  | Char char
  | Dot
  | CharClass bool "ClassAtom list"
  | Seq regex regex
  | Alt regex regex
  | Group regex
  | Quant regex nat "nat option" bool
  | WordBoundary
  | NegLookahead regex
  | NegLookbehind regex

text \<open>
  \<open>CharClass invert atoms\<close> is \<^verbatim>\<open>[...]\<close>, or \<^verbatim>\<open>[^...]\<close> when \<open>invert\<close> holds;
  \<open>Quant r mn mx greedy\<close> repeats \<open>r\<close> at least \<open>mn\<close> and at most \<open>mx\<close> times (\<open>None\<close>: no
  upper bound). The notation of the catalog below:
\<close>

definition lit :: "string \<Rightarrow> regex" where
  "lit cs = foldr (\<lambda>c r. Seq (Char c) r) cs Empty"

definition seq :: "regex list \<Rightarrow> regex" where
  "seq rs = foldr Seq rs Empty"

fun alt :: "regex list \<Rightarrow> regex" where
  "alt [] = Empty"
| "alt [r] = r"
| "alt (r # rs) = Alt r (alt rs)"

abbreviation many :: "regex \<Rightarrow> regex" where
  "many r \<equiv> Quant r 0 None True"

abbreviation many1 :: "regex \<Rightarrow> regex" where
  "many1 r \<equiv> Quant r 1 None True"

abbreviation lazy_many :: "regex \<Rightarrow> regex" where
  "lazy_many r \<equiv> Quant r 0 None False"

abbreviation optional :: "regex \<Rightarrow> regex" where
  "optional r \<equiv> Quant r 0 (Some 1) True"

abbreviation esc_s :: regex where
  "esc_s \<equiv> CharClass False [ClassSpace]"

abbreviation esc_w :: regex where
  "esc_w \<equiv> CharClass False [ClassWord]"

subsection \<open>Matching\<close>

text \<open>
  With the flag \<^verbatim>\<open>i\<close> and without \<^verbatim>\<open>u\<close>, two code units match when their
  canonicalizations are equal. Canonicalization maps a code unit to its upper case, except
  that no code unit outside ASCII is mapped into ASCII; the patterns are ASCII, so only the
  ASCII letters matter here.
\<close>

definition Canonicalize :: "bool \<Rightarrow> code_unit \<Rightarrow> code_unit" where
  "Canonicalize ignoreCase ch =
     (if ignoreCase \<and> 0x61 \<le> ch \<and> ch \<le> 0x7A then ch - 0x20 else ch)"

definition isWordChar :: "code_unit \<Rightarrow> bool" where
  "isWordChar c =
     ((0x61 \<le> c \<and> c \<le> 0x7A) \<or> (0x41 \<le> c \<and> c \<le> 0x5A) \<or> (0x30 \<le> c \<and> c \<le> 0x39) \<or> c = 0x5F)"

text \<open>
  A class atom matches \<open>ch\<close> when one of its members has the canonicalization of \<open>ch\<close>.
  For a range this is decided from \<open>ch\<close> and its two ASCII case variants
  (lemma \<open>atomMatches_ClassRange\<close> below).
\<close>

fun atomMatches :: "bool \<Rightarrow> ClassAtom \<Rightarrow> code_unit \<Rightarrow> bool" where
  "atomMatches ic (ClassChar a) ch = (Canonicalize ic (of_char a) = Canonicalize ic ch)"
| "atomMatches ic (ClassRange lo hi) ch =
     ((of_char lo \<le> ch \<and> ch \<le> of_char hi) \<or>
      (ic \<and> 0x61 \<le> ch \<and> ch \<le> 0x7A \<and> of_char lo \<le> ch - 0x20 \<and> ch - 0x20 \<le> of_char hi) \<or>
      (ic \<and> 0x41 \<le> ch \<and> ch \<le> 0x5A \<and> of_char lo \<le> ch + 0x20 \<and> ch + 0x20 \<le> of_char hi))"
| "atomMatches ic ClassSpace ch = (isWhiteSpace ch \<or> isLineTerminator ch)"
| "atomMatches ic ClassWord ch = isWordChar ch"

text \<open>
  The matcher follows the backtracking semantics of the ECMAScript specification, with
  the continuation replaced by the list of its arguments: a match state is the rest of the
  input that is still to be read (the end index of the state is the length of the input
  minus the length of the rest), and a matcher returns the states in which it can succeed,
  in the order in which backtracking tries them. The first state of the list is the one
  the backtracking matcher ends in when nothing follows.

  \<open>RepeatMatcher\<close> is the specification's: an iteration that is not required (\<open>mn = 0\<close>)
  and does not advance the end index fails. Matchers return rests of their argument
  (lemma \<open>matcher_suffix\<close>), so not advancing is the same as returning a rest that is not
  shorter.
\<close>

fun RepeatMatcher ::
  "(jsstring \<Rightarrow> jsstring list) \<Rightarrow> nat \<Rightarrow> nat option \<Rightarrow> bool \<Rightarrow> jsstring \<Rightarrow> jsstring list" where
  "RepeatMatcher m mn mx greedy x =
     (if mx = Some 0 then [x]
      else if mn \<noteq> 0 then
        concat (map (\<lambda>y. RepeatMatcher m (mn - 1) (map_option (\<lambda>n. n - 1) mx) greedy y) (m x))
      else if greedy then
        concat (map (\<lambda>y. if length y < length x
                         then RepeatMatcher m 0 (map_option (\<lambda>n. n - 1) mx) greedy y
                         else []) (m x)) @ [x]
      else
        x # concat (map (\<lambda>y. if length y < length x
                             then RepeatMatcher m 0 (map_option (\<lambda>n. n - 1) mx) greedy y
                             else []) (m x)))"

declare RepeatMatcher.simps [simp del]

definition IsWordCharAt :: "jsstring \<Rightarrow> int \<Rightarrow> bool" where
  "IsWordCharAt s e =
     (if e = - 1 \<or> e = int (length s) then False else isWordChar (s ! nat e))"

text \<open>
  \<open>matcher r ic s x\<close>: the pattern \<open>r\<close>, the flag \<^verbatim>\<open>i\<close>, the whole input \<open>s\<close> (read by
  \<^verbatim>\<open>\b\<close> and by lookbehind) and the state \<open>x\<close>. A negative lookahead succeeds when its
  body has no match at the state. A negative lookbehind succeeds when its body matches no
  part of the input that ends at the state; the specification finds such a part by matching
  backwards, which finds one exactly when there is one, as the body has no backreference.
\<close>

fun matcher :: "regex \<Rightarrow> bool \<Rightarrow> jsstring \<Rightarrow> jsstring \<Rightarrow> jsstring list" where
  "matcher Empty ic s x = [x]"
| "matcher (Char c) ic s x =
     (case x of
        [] \<Rightarrow> []
      | ch # y \<Rightarrow> if Canonicalize ic ch = Canonicalize ic (of_char c) then [y] else [])"
| "matcher Dot ic s x =
     (case x of
        [] \<Rightarrow> []
      | ch # y \<Rightarrow> if isLineTerminator ch then [] else [y])"
| "matcher (CharClass invert atoms) ic s x =
     (case x of
        [] \<Rightarrow> []
      | ch # y \<Rightarrow> if list_ex (\<lambda>a. atomMatches ic a ch) atoms = invert then [] else [y])"
| "matcher (Seq r1 r2) ic s x = concat (map (\<lambda>y. matcher r2 ic s y) (matcher r1 ic s x))"
| "matcher (Alt r1 r2) ic s x = matcher r1 ic s x @ matcher r2 ic s x"
| "matcher (Group r) ic s x = matcher r ic s x"
| "matcher (Quant r mn mx greedy) ic s x =
     RepeatMatcher (\<lambda>y. matcher r ic s y) mn mx greedy x"
| "matcher WordBoundary ic s x =
     (let e = int (length s) - int (length x) in
      if IsWordCharAt s (e - 1) \<noteq> IsWordCharAt s e then [x] else [])"
| "matcher (NegLookahead r) ic s x = (if matcher r ic s x = [] then [x] else [])"
| "matcher (NegLookbehind r) ic s x =
     (if list_ex (\<lambda>k. list_ex (\<lambda>y. length y = length x) (matcher r ic s (drop k s)))
           [0..<Suc (length s - length x)]
      then [] else [x])"

subsection \<open>RegExp objects\<close>

text \<open>
  A \<^verbatim>\<open>RegExp\<close> object has its pattern, its flags and one mutable property,
  \<^verbatim>\<open>lastIndex\<close>. The objects live in a store that maps the address of an object to its
  \<^verbatim>\<open>lastIndex\<close>; two rules that share one \<^verbatim>\<open>RegExp\<close> object share its address.
\<close>

record RegExp =
  source :: regex
  ignoreCase :: bool
  global :: bool
  sticky :: bool
  addr :: nat

type_synonym store = "nat \<Rightarrow> nat"

text \<open>The literal \<^verbatim>\<open>/r/i\<close>, evaluated to the object at address \<open>a\<close>.\<close>

definition RegExp_i :: "nat \<Rightarrow> regex \<Rightarrow> RegExp" where
  "RegExp_i a r = \<lparr>source = r, ignoreCase = True, global = False, sticky = False, addr = a\<rparr>"

text \<open>
  The loop of \<^verbatim>\<open>RegExpBuiltinExec\<close>: when \<open>lastIndex\<close> is past the end of the input
  there is no match; otherwise try the matcher at \<open>lastIndex\<close>, and on failure give up when
  the expression is sticky and go on at \<open>lastIndex + 1\<close> otherwise. \<open>searchFrom\<close> is the
  loop, with the rest \<open>x\<close> of the input from \<open>lastIndex\<close> on in place of the index: the next
  index is the rest without its first code unit, and after the empty rest the index is past
  the end. The result is the end index of the match.
\<close>

fun searchFrom :: "regex \<Rightarrow> bool \<Rightarrow> bool \<Rightarrow> jsstring \<Rightarrow> jsstring \<Rightarrow> nat option" where
  "searchFrom r ic stick s x =
     (case matcher r ic s x of
        y # _ \<Rightarrow> Some (length s - length y)
      | [] \<Rightarrow>
          if stick then None
          else (case x of [] \<Rightarrow> None | _ # x' \<Rightarrow> searchFrom r ic stick s x'))"

declare searchFrom.simps [simp del]

definition search :: "regex \<Rightarrow> bool \<Rightarrow> bool \<Rightarrow> jsstring \<Rightarrow> nat \<Rightarrow> nat option" where
  "search r ic stick s lastIndex =
     (if lastIndex > length s then None else searchFrom r ic stick s (drop lastIndex s))"

text \<open>
  \<^verbatim>\<open>RegExpBuiltinExec\<close> reads \<^verbatim>\<open>lastIndex\<close> only when the expression is global or
  sticky (it starts at 0 otherwise), and only then writes it: the end index of the match,
  or 0 when there is none. \<^verbatim>\<open>RegExp.prototype.test\<close> tells whether there was a match.
\<close>

definition RegExpBuiltinExec :: "RegExp \<Rightarrow> jsstring \<Rightarrow> store \<Rightarrow> nat option \<times> store" where
  "RegExpBuiltinExec R S \<sigma> =
     (let lastIndex = (if global R \<or> sticky R then \<sigma> (addr R) else 0) in
      case search (source R) (ignoreCase R) (sticky R) S lastIndex of
        None \<Rightarrow> (None, if global R \<or> sticky R then \<sigma>(addr R := 0) else \<sigma>)
      | Some e \<Rightarrow> (Some e, if global R \<or> sticky R then \<sigma>(addr R := e) else \<sigma>))"

definition test :: "RegExp \<Rightarrow> jsstring \<Rightarrow> store \<Rightarrow> bool \<times> store" where
  "test R S \<sigma> = (case RegExpBuiltinExec R S \<sigma> of (r, \<sigma>') \<Rightarrow> (r \<noteq> None, \<sigma>'))"

text \<open>
  Whether an expression without the flags \<^verbatim>\<open>g\<close> and \<^verbatim>\<open>y\<close> has a match in a string;
  for such an expression this is what \<open>test\<close> returns (lemma \<open>test_stateless\<close>).
\<close>

definition stateless :: "RegExp \<Rightarrow> bool" where
  "stateless R = (\<not> global R \<and> \<not> sticky R)"

definition matches :: "RegExp \<Rightarrow> jsstring \<Rightarrow> bool" where
  "matches R S = (search (source R) (ignoreCase R) False S 0 \<noteq> None)"

section \<open>Rules and detections\<close>

datatype Severity = Low | Medium | High

text \<open>The string that a severity is at run time.\<close>

fun severityString :: "Severity \<Rightarrow> jsstring" where
  "severityString Low = js ''low''"
| "severityString Medium = js ''medium''"
| "severityString High = js ''high''"

record UnsafePattern =
  id' :: jsstring
  name :: jsstring
  pattern :: RegExp
  description :: jsstring
  severity :: Severity
  suggestion :: jsstring
  example :: jsstring
  safeExample :: jsstring
  docUrl :: jsstring

record Detection =
  pattern :: UnsafePattern
  lineNumber :: nat
  matchedText :: jsstring

section \<open>The catalog\<close>

text \<open>
  The rules of \<^verbatim>\<open>unsafePatterns\<close>, in the order of the array. Every pattern is a literal
  with the flag \<^verbatim>\<open>i\<close> only. The literal of a rule is given a name, before the rule; the
  literal of the \<open>n\<close>-th rule (from 0) is the object at address \<open>n\<close>.
\<close>

text \<open>\<^verbatim>\<open>FUNCTION_PARAMETER_INJECTION\<close>, with the pattern \<^verbatim>\<open>/\.(find|findOne|aggregate|update|delete)\s*\(\s*\{\s*[a-zA-Z0-9_]+\s*:\s*(\w+)(?!\()/i\<close>\<close>

definition FUNCTION_PARAMETER_INJECTION_pattern :: RegExp where
  "FUNCTION_PARAMETER_INJECTION_pattern = RegExp_i 0
     (seq [Char CHR ''.'', Group (alt [lit ''find'', lit ''findOne'', lit ''aggregate'',
      lit ''update'', lit ''delete'']), many esc_s, Char CHR ''('', many esc_s, Char CHR ''{'',
      many esc_s, many1 (CharClass False [ClassRange CHR ''a'' CHR ''z'',
      ClassRange CHR ''A'' CHR ''Z'', ClassRange CHR ''0'' CHR ''9'', ClassChar CHR ''_'']),
      many esc_s, Char CHR '':'', many esc_s, Group (many1 esc_w), NegLookahead
      (Char CHR ''('')])"

definition FUNCTION_PARAMETER_INJECTION :: UnsafePattern where
  "FUNCTION_PARAMETER_INJECTION = \<lparr>
     id' = js ''FUNCTION_PARAMETER_INJECTION'',
     name = js ''Function Parameter Injection'',
     pattern = FUNCTION_PARAMETER_INJECTION_pattern,
     description = js
        ''Using unvalidated function parameters directly in queries can lead to query injection attacks'',
     severity = High,
     suggestion = js
        ''Validate and sanitize all function parameters before using them in database queries. Consider using schema validation or type checking.'',
     example = js ''const getUser = (username) => db.users.find({ username });'',
     safeExample = js (''const getUser = (username) => {'' @ [CHR 0x0A] @ ''  if (typeof username !== '' @
        [CHR 0x27] @ ''string'' @ [CHR 0x27] @ '' || !username) throw new Error('' @ [CHR 0x27]
        @ ''Invalid username'' @ [CHR 0x27] @ '');'' @ [CHR 0x0A] @
        ''  return db.users.find({ username });'' @ [CHR 0x0A] @ ''};''),
     docUrl = js ''https://www.mongodb.com/docs/manual/core/security-input-validation/'' \<rparr>"

text \<open>\<^verbatim>\<open>TEMPLATE_STRING_INJECTION\<close>, with the pattern \<^verbatim>\<open>/db\.[a-zA-Z0-9_]+\.(find|findOne|aggregate|update|delete)\s*\(\s*\`.*?\$\{.*?\}.*?\`/i\<close>\<close>

definition TEMPLATE_STRING_INJECTION_pattern :: RegExp where
  "TEMPLATE_STRING_INJECTION_pattern = RegExp_i 1
     (seq [lit ''db.'', many1 (CharClass False [ClassRange CHR ''a'' CHR ''z'',
      ClassRange CHR ''A'' CHR ''Z'', ClassRange CHR ''0'' CHR ''9'', ClassChar CHR ''_'']),
      Char CHR ''.'', Group (alt [lit ''find'', lit ''findOne'', lit ''aggregate'',
      lit ''update'', lit ''delete'']), many esc_s, Char CHR ''('', many esc_s, Char CHR ''`'',
      lazy_many Dot, lit ''${'', lazy_many Dot, Char CHR ''}'', lazy_many Dot, Char CHR ''`''])"

definition TEMPLATE_STRING_INJECTION :: UnsafePattern where
  "TEMPLATE_STRING_INJECTION = \<lparr>
     id' = js ''TEMPLATE_STRING_INJECTION'',
     name = js ''Template String Injection'',
     pattern = TEMPLATE_STRING_INJECTION_pattern,
     description = js
        ''Using template literals with interpolated values in MongoDB queries can lead to injection attacks'',
     severity = High,
     suggestion = js
        ''Never use template literals to construct MongoDB queries. Use parameterized objects instead.'',
     example = js (''db.users.find(`{ username: '' @ [CHR 0x22] @ ''${username}'' @ [CHR 0x22] @
        '' }`);''),
     safeExample = js ''db.users.find({ username: sanitizedUsername });'',
     docUrl = js
        ''https://www.mongodb.com/docs/manual/faq/fundamentals/#how-does-mongodb-address-sql-or-query-injection'' \<rparr>"

text \<open>\<^verbatim>\<open>ARRAY_FILTER_INJECTION\<close>, with the pattern \<^verbatim>\<open>/\$\[\s*\w+\s*\]/i\<close>\<close>

definition ARRAY_FILTER_INJECTION_pattern :: RegExp where
  "ARRAY_FILTER_INJECTION_pattern = RegExp_i 2
     (seq [lit ''$['', many esc_s, many1 esc_w, many esc_s, Char CHR '']''])"

definition ARRAY_FILTER_INJECTION :: UnsafePattern where
  "ARRAY_FILTER_INJECTION = \<lparr>
     id' = js ''ARRAY_FILTER_INJECTION'',
     name = js ''Array Filter Injection'',
     pattern = ARRAY_FILTER_INJECTION_pattern,
     description = js ''Using unvalidated identifiers in array filters can lead to query injection'',
     severity = Medium,
     suggestion = js
        ''Validate array filter identifiers and ensure they only contain alphanumeric characters'',
     example = js (''db.collection.updateOne({}, { $set: { '' @ [CHR 0x27] @ ''items.$[userInput]'' @
        [CHR 0x27] @ '': newValue } });''),
     safeExample = js (''const filterId = /^[a-zA-Z0-9]+$/.test(userInput) ? userInput : '' @ [CHR 0x27] @
        ''default'' @ [CHR 0x27] @ '';'' @ [CHR 0x0A] @
        ''db.collection.updateOne({}, { $set: { [`items.$[${filterId}]`]: newValue } });''),
     docUrl = js
        ''https://www.mongodb.com/docs/manual/reference/operator/update/positional-filtered/'' \<rparr>"

text \<open>\<^verbatim>\<open>DIRECT_QUERY_VARIABLE_ASSIGNMENT\<close>, with the pattern \<^verbatim>\<open>/const\s+query\s*=\s*req\.(body|params|query)/i\<close>\<close>

definition DIRECT_QUERY_VARIABLE_ASSIGNMENT_pattern :: RegExp where
  "DIRECT_QUERY_VARIABLE_ASSIGNMENT_pattern = RegExp_i 3
     (seq [lit ''const'', many1 esc_s, lit ''query'', many esc_s, Char CHR ''='', many esc_s,
      lit ''req.'', Group (alt [lit ''body'', lit ''params'', lit ''query''])])"

definition DIRECT_QUERY_VARIABLE_ASSIGNMENT :: UnsafePattern where
  "DIRECT_QUERY_VARIABLE_ASSIGNMENT = \<lparr>
     id' = js ''DIRECT_QUERY_VARIABLE_ASSIGNMENT'',
     name = js ''Direct Query Variable Assignment'',
     pattern = DIRECT_QUERY_VARIABLE_ASSIGNMENT_pattern,
     description = js ''Directly assigning request data to a query variable can lead to query injection'',
     severity = High,
     suggestion = js
        ''Never assign user input directly to query objects. Always construct queries with validated fields.'',
     example = js (''const query = req.query;'' @ [CHR 0x0A] @ ''db.users.find(query);''),
     safeExample = js (''const { name, email } = validateUserInput(req.query);'' @ [CHR 0x0A] @
        ''db.users.find({ name, email });''),
     docUrl = js ''https://www.mongodb.com/docs/manual/core/security-input-validation/'' \<rparr>"

text \<open>\<^verbatim>\<open>BULK_OPERATION_INJECTION\<close>, with the pattern \<^verbatim>\<open>/\.bulkWrite\s*\(\s*(\w+)(?!\()/i\<close>\<close>

definition BULK_OPERATION_INJECTION_pattern :: RegExp where
  "BULK_OPERATION_INJECTION_pattern = RegExp_i 4
     (seq [lit ''.bulkWrite'', many esc_s, Char CHR ''('', many esc_s, Group (many1 esc_w),
      NegLookahead (Char CHR ''('')])"

definition BULK_OPERATION_INJECTION :: UnsafePattern where
  "BULK_OPERATION_INJECTION = \<lparr>
     id' = js ''BULK_OPERATION_INJECTION'',
     name = js ''Bulk Operation Injection'',
     pattern = BULK_OPERATION_INJECTION_pattern,
     description = js ''Using unvalidated input in bulk operations can lead to mass data manipulation'',
     severity = High,
     suggestion = js ''Validate each operation in a bulk write array before execution'',
     example = js ''db.collection.bulkWrite(userOperations);'',
     safeExample = js (''const validatedOps = validateBulkOperations(userOperations);'' @ [CHR 0x0A] @
        ''if (validatedOps) db.collection.bulkWrite(validatedOps);''),
     docUrl = js ''https://www.mongodb.com/docs/manual/reference/method/db.collection.bulkWrite/'' \<rparr>"

text \<open>\<^verbatim>\<open>EVAL_USAGE\<close>, with the pattern \<^verbatim>\<open>/db\.eval\s*\(/i\<close>\<close>

definition EVAL_USAGE_pattern :: RegExp where
  "EVAL_USAGE_pattern = RegExp_i 5
     (seq [lit ''db.eval'', many esc_s, Char CHR ''(''])"

definition EVAL_USAGE :: UnsafePattern where
  "EVAL_USAGE = \<lparr>
     id' = js ''EVAL_USAGE'',
     name = js ''Eval Usage'',
     pattern = EVAL_USAGE_pattern,
     description = js
        ''Using db.eval() is deprecated and extremely dangerous as it allows arbitrary JavaScript execution'',
     severity = High,
     suggestion = js ''Never use db.eval(). Use aggregation framework or other MongoDB features instead.'',
     example = js (''db.eval('' @ [CHR 0x27] @ ''function() { return db.users.findOne(); }'' @
        [CHR 0x27] @ '');''),
     safeExample = js ''db.users.findOne();'',
     docUrl = js ''https://www.mongodb.com/docs/manual/reference/method/db.eval/#security'' \<rparr>"

text \<open>\<^verbatim>\<open>INSECURE_AUTH_CHECKS\<close>, with the pattern \<^verbatim>\<open>/\.(find|findOne)\s*\(\s*\{\s*.*?password.*?\}\s*\)/i\<close>\<close>

definition INSECURE_AUTH_CHECKS_pattern :: RegExp where
  "INSECURE_AUTH_CHECKS_pattern = RegExp_i 6
     (seq [Char CHR ''.'', Group (alt [lit ''find'', lit ''findOne'']), many esc_s,
      Char CHR ''('', many esc_s, Char CHR ''{'', many esc_s, lazy_many Dot, lit ''password'',
      lazy_many Dot, Char CHR ''}'', many esc_s, Char CHR '')''])"

definition INSECURE_AUTH_CHECKS :: UnsafePattern where
  "INSECURE_AUTH_CHECKS = \<lparr>
     id' = js ''INSECURE_AUTH_CHECKS'',
     name = js ''Insecure Authentication Checks'',
     pattern = INSECURE_AUTH_CHECKS_pattern,
     description = js
        ''Performing authentication through find operations can expose passwords or allow bypass'',
     severity = High,
     suggestion = js (''Use secure authentication mechanisms like Passport.js or MongoDB'' @ [CHR 0x27] @
        ''s built-in auth. Never query passwords directly.''),
     example = js ''db.users.findOne({ username, password: plainTextPassword });'',
     safeExample = js (''const user = await db.users.findOne({ username });'' @ [CHR 0x0A] @
        ''const isMatch = await bcrypt.compare(password, user.passwordHash);''),
     docUrl = js ''https://www.mongodb.com/docs/manual/core/security-scram/'' \<rparr>"

text \<open>\<^verbatim>\<open>WEAK_INDEXING\<close>, with the pattern \<^verbatim>\<open>/createIndex\s*\(\s*\{\s*.*?\s*\}\s*,\s*\{\s*(?!.*?unique).*?\}\s*\)/i\<close>\<close>

definition WEAK_INDEXING_pattern :: RegExp where
  "WEAK_INDEXING_pattern = RegExp_i 7
     (seq [lit ''createIndex'', many esc_s, Char CHR ''('', many esc_s, Char CHR ''{'',
      many esc_s, lazy_many Dot, many esc_s, Char CHR ''}'', many esc_s, Char CHR '','',
      many esc_s, Char CHR ''{'', many esc_s, NegLookahead (seq [lazy_many Dot,
      lit ''unique'']), lazy_many Dot, Char CHR ''}'', many esc_s, Char CHR '')''])"

definition WEAK_INDEXING :: UnsafePattern where
  "WEAK_INDEXING = \<lparr>
     id' = js ''WEAK_INDEXING'',
     name = js ''Weak Indexing'',
     pattern = WEAK_INDEXING_pattern,
     description = js
        ''Not using unique indexes for identity fields can lead to duplicate records and security issues'',
     severity = Medium,
     suggestion = js ''Use unique indexes for identity fields like username, email, and account numbers'',
     example = js ''db.users.createIndex({ email: 1 });'',
     safeExample = js ''db.users.createIndex({ email: 1 }, { unique: true });'',
     docUrl = js ''https://www.mongodb.com/docs/manual/core/index-unique/'' \<rparr>"

text \<open>\<^verbatim>\<open>DIRECT_JSON_PARSE\<close>, with the pattern \<^verbatim>\<open>/JSON\.parse\s*\(.*?\)\s*.*?(\.find|\.findOne|\.update|\.delete)/i\<close>\<close>

definition DIRECT_JSON_PARSE_pattern :: RegExp where
  "DIRECT_JSON_PARSE_pattern = RegExp_i 8
     (seq [lit ''JSON.parse'', many esc_s, Char CHR ''('', lazy_many Dot, Char CHR '')'',
      many esc_s, lazy_many Dot, Group (alt [lit ''.find'', lit ''.findOne'', lit ''.update'',
      lit ''.delete''])])"

definition DIRECT_JSON_PARSE :: UnsafePattern where
  "DIRECT_JSON_PARSE = \<lparr>
     id' = js ''DIRECT_JSON_PARSE'',
     name = js ''Direct JSON Parse to Query'',
     pattern = DIRECT_JSON_PARSE_pattern,
     description = js
        ''Parsing JSON directly from external sources into queries can lead to injection attacks'',
     severity = High,
     suggestion = js ''Validate parsed JSON against a schema before using it in database operations'',
     example = js (''const query = JSON.parse(queryString);'' @ [CHR 0x0A] @ ''db.users.find(query);''),
     safeExample = js (''const parsedData = JSON.parse(queryString);'' @ [CHR 0x0A] @
        ''const validatedQuery = validateQuerySchema(parsedData);'' @ [CHR 0x0A] @
        ''db.users.find(validatedQuery);''),
     docUrl = js
        ''https://www.mongodb.com/docs/manual/faq/fundamentals/#how-does-mongodb-address-sql-or-query-injection'' \<rparr>"

text \<open>\<^verbatim>\<open>TRANSACTION_WITHOUT_ERROR_HANDLING\<close>, with the pattern \<^verbatim>\<open>/startSession\s*\(\s*\).*?withTransaction.*?(?!\s*catch\s*\()/i\<close>\<close>

definition TRANSACTION_WITHOUT_ERROR_HANDLING_pattern :: RegExp where
  "TRANSACTION_WITHOUT_ERROR_HANDLING_pattern = RegExp_i 9
     (seq [lit ''startSession'', many esc_s, Char CHR ''('', many esc_s, Char CHR '')'',
      lazy_many Dot, lit ''withTransaction'', lazy_many Dot, NegLookahead (seq [many esc_s,
      lit ''catch'', many esc_s, Char CHR ''(''])])"

definition TRANSACTION_WITHOUT_ERROR_HANDLING :: UnsafePattern where
  "TRANSACTION_WITHOUT_ERROR_HANDLING = \<lparr>
     id' = js ''TRANSACTION_WITHOUT_ERROR_HANDLING'',
     name = js ''Transaction Without Error Handling'',
     pattern = TRANSACTION_WITHOUT_ERROR_HANDLING_pattern,
     description = js
        ''MongoDB transactions without proper error handling can leave data in an inconsistent state'',
     severity = Medium,
     suggestion = js
        ''Always use try/catch/finally blocks with transactions and implement proper error handling'',
     example = js ''session.withTransaction(() => { /* operations */ });'',
     safeExample = js (''try {'' @ [CHR 0x0A] @
        ''  await session.withTransaction(async () => { /* operations */ });'' @ [CHR 0x0A] @
        ''} catch (error) {'' @ [CHR 0x0A] @ ''  // Handle error and rollback if needed'' @
        [CHR 0x0A] @ ''} finally {'' @ [CHR 0x0A] @ ''  await session.endSession();'' @
        [CHR 0x0A] @ ''}''),
     docUrl = js
        ''https://www.mongodb.com/docs/manual/core/transactions-in-applications/#error-handling'' \<rparr>"

text \<open>\<^verbatim>\<open>NOSQL_INJECTION_OBJECT\<close>, with the pattern \<^verbatim>\<open>/\{\s*(\$where|\$expr)\s*:/i\<close>\<close>

definition NOSQL_INJECTION_OBJECT_pattern :: RegExp where
  "NOSQL_INJECTION_OBJECT_pattern = RegExp_i 10
     (seq [Char CHR ''{'', many esc_s, Group (alt [lit ''$where'', lit ''$expr'']), many esc_s,
      Char CHR '':''])"

definition NOSQL_INJECTION_OBJECT :: UnsafePattern where
  "NOSQL_INJECTION_OBJECT = \<lparr>
     id' = js ''NOSQL_INJECTION_OBJECT'',
     name = js ''NoSQL Injection (Object)'',
     pattern = NOSQL_INJECTION_OBJECT_pattern,
     description = js
        ''Using $where or $expr operators can lead to NoSQL injection if user input is not properly sanitized'',
     severity = High,
     suggestion = js
        ''Validate and sanitize all user inputs. Avoid using $where or $expr with user input. Use specific field queries instead.'',
     example = js (''db.users.find({ $where: '' @ [CHR 0x22] @ ''this.username === '' @ [CHR 0x27] @
        [CHR 0x22] @ '' + username + '' @ [CHR 0x22] @ [CHR 0x27] @ [CHR 0x22] @ '' });''),
     safeExample = js ''db.users.find({ username: sanitizedUsername });'',
     docUrl = js ''https://www.mongodb.com/docs/manual/reference/operator/query/where/#security'' \<rparr>"

text \<open>\<^verbatim>\<open>NOSQL_INJECTION_REGEX\<close>, with the pattern \<^verbatim>\<open>/\{\s*['"a-zA-Z0-9_]+\s*:\s*new\s+RegExp\s*\(\s*.*?\s*\)/i\<close>\<close>

definition NOSQL_INJECTION_REGEX_pattern :: RegExp where
  "NOSQL_INJECTION_REGEX_pattern = RegExp_i 11
     (seq [Char CHR ''{'', many esc_s, many1 (CharClass False [ClassChar (CHR 0x27), ClassChar
      (CHR 0x22), ClassRange CHR ''a'' CHR ''z'', ClassRange CHR ''A'' CHR ''Z'',
      ClassRange CHR ''0'' CHR ''9'', ClassChar CHR ''_'']), many esc_s, Char CHR '':'',
      many esc_s, lit ''new'', many1 esc_s, lit ''RegExp'', many esc_s, Char CHR ''('',
      many esc_s, lazy_many Dot, many esc_s, Char CHR '')''])"

definition NOSQL_INJECTION_REGEX :: UnsafePattern where
  "NOSQL_INJECTION_REGEX = \<lparr>
     id' = js ''NOSQL_INJECTION_REGEX'',
     name = js ''NoSQL Injection (Regex)'',
     pattern = NOSQL_INJECTION_REGEX_pattern,
     description = js
        ''Using RegExp with user input can lead to regex injection attacks or denial of service (ReDoS)'',
     severity = High,
     suggestion = js (''Validate the user input and ensure it doesn'' @ [CHR 0x27] @
        ''t contain regex special characters. Consider using exact matches instead.''),
     example = js ''db.users.find({ username: new RegExp(userInput) });'',
     safeExample = js ''db.users.find({ username: sanitizedUsername });'',
     docUrl = js ''https://www.mongodb.com/docs/manual/reference/operator/query/regex/#security'' \<rparr>"

text \<open>\<^verbatim>\<open>NOSQL_INJECTION_STRING\<close>, with the pattern \<^verbatim>\<open>/db\.[a-zA-Z0-9_]+\.(find|findOne|aggregate|update|delete)\s*\(\s*['"`]\s*\{\s*.*?\$.*?\}\s*['"`]\s*\+/i\<close>\<close>

definition NOSQL_INJECTION_STRING_pattern :: RegExp where
  "NOSQL_INJECTION_STRING_pattern = RegExp_i 12
     (seq [lit ''db.'', many1 (CharClass False [ClassRange CHR ''a'' CHR ''z'',
      ClassRange CHR ''A'' CHR ''Z'', ClassRange CHR ''0'' CHR ''9'', ClassChar CHR ''_'']),
      Char CHR ''.'', Group (alt [lit ''find'', lit ''findOne'', lit ''aggregate'',
      lit ''update'', lit ''delete'']), many esc_s, Char CHR ''('', many esc_s, CharClass False
      [ClassChar (CHR 0x27), ClassChar (CHR 0x22), ClassChar CHR ''`''], many esc_s,
      Char CHR ''{'', many esc_s, lazy_many Dot, Char CHR ''$'', lazy_many Dot, Char CHR ''}'',
      many esc_s, CharClass False [ClassChar (CHR 0x27), ClassChar (CHR 0x22),
      ClassChar CHR ''`''], many esc_s, Char CHR ''+''])"

definition NOSQL_INJECTION_STRING :: UnsafePattern where
  "NOSQL_INJECTION_STRING = \<lparr>
     id' = js ''NOSQL_INJECTION_STRING'',
     name = js ''NoSQL Injection (String Concatenation)'',
     pattern = NOSQL_INJECTION_STRING_pattern,
     description = js ''String concatenation to build query objects can lead to NoSQL injection'',
     severity = High,
     suggestion = js
        ''Never construct MongoDB queries using string concatenation. Use parameterized queries with proper objects.'',
     example = js (''db.users.find('' @ [CHR 0x22] @ ''{ username: '' @ [CHR 0x27] @ [CHR 0x22] @
        '' + username + '' @ [CHR 0x22] @ [CHR 0x27] @ '' }'' @ [CHR 0x22] @ '');''),
     safeExample = js ''db.users.find({ username: sanitizedUsername });'',
     docUrl = js
        ''https://www.mongodb.com/docs/manual/faq/fundamentals/#how-does-mongodb-address-sql-or-query-injection'' \<rparr>"

text \<open>\<^verbatim>\<open>UNVALIDATED_USER_INPUT\<close>, with the pattern \<^verbatim>\<open>/\{\s*['"a-zA-Z0-9_]+\s*:\s*req\.body\.|req\.params\.|req\.query\./i\<close>\<close>

definition UNVALIDATED_USER_INPUT_pattern :: RegExp where
  "UNVALIDATED_USER_INPUT_pattern = RegExp_i 13
     (alt [seq [Char CHR ''{'', many esc_s, many1 (CharClass False [ClassChar (CHR 0x27),
      ClassChar (CHR 0x22), ClassRange CHR ''a'' CHR ''z'', ClassRange CHR ''A'' CHR ''Z'',
      ClassRange CHR ''0'' CHR ''9'', ClassChar CHR ''_'']), many esc_s, Char CHR '':'',
      many esc_s, lit ''req.body.''], lit ''req.params.'', lit ''req.query.''])"

definition UNVALIDATED_USER_INPUT :: UnsafePattern where
  "UNVALIDATED_USER_INPUT = \<lparr>
     id' = js ''UNVALIDATED_USER_INPUT'',
     name = js ''Unvalidated User Input in Query'',
     pattern = UNVALIDATED_USER_INPUT_pattern,
     description = js
        ''Using unvalidated user input directly in queries can lead to NoSQL injection attacks'',
     severity = High,
     suggestion = js
        ''Always validate and sanitize user input before using it in database queries. Use validation libraries like Zod or Joi.'',
     example = js ''db.users.find({ username: req.body.username });'',
     safeExample = js (''const schema = z.object({ username: z.string() });'' @ [CHR 0x0A] @
        ''const { username } = schema.parse(req.body);'' @ [CHR 0x0A] @
        ''db.users.find({ username });''),
     docUrl = js ''https://www.mongodb.com/docs/manual/core/security-input-validation/'' \<rparr>"

text \<open>\<^verbatim>\<open>INSECURE_PROJECTION\<close>, with the pattern \<^verbatim>\<open>/\.(find|findOne)\s*\(\s*.*?\s*,\s*\{\s*(['"a-zA-Z0-9_]+\s*:\s*0|['"a-zA-Z0-9_]+\s*:\s*false)\s*\}/i\<close>\<close>

definition INSECURE_PROJECTION_pattern :: RegExp where
  "INSECURE_PROJECTION_pattern = RegExp_i 14
     (seq [Char CHR ''.'', Group (alt [lit ''find'', lit ''findOne'']), many esc_s,
      Char CHR ''('', many esc_s, lazy_many Dot, many esc_s, Char CHR '','', many esc_s,
      Char CHR ''{'', many esc_s, Group (alt [seq [many1 (CharClass False [ClassChar (CHR 0x27),
      ClassChar (CHR 0x22), ClassRange CHR ''a'' CHR ''z'', ClassRange CHR ''A'' CHR ''Z'',
      ClassRange CHR ''0'' CHR ''9'', ClassChar CHR ''_'']), many esc_s, Char CHR '':'',
      many esc_s, Char CHR ''0''], seq [many1 (CharClass False [ClassChar (CHR 0x27), ClassChar
      (CHR 0x22), ClassRange CHR ''a'' CHR ''z'', ClassRange CHR ''A'' CHR ''Z'',
      ClassRange CHR ''0'' CHR ''9'', ClassChar CHR ''_'']), many esc_s, Char CHR '':'',
      many esc_s, lit ''false'']]), many esc_s, Char CHR ''}''])"

definition INSECURE_PROJECTION :: UnsafePattern where
  "INSECURE_PROJECTION = \<lparr>
     id' = js ''INSECURE_PROJECTION'',
     name = js ''Insecure Projection'',
     pattern = INSECURE_PROJECTION_pattern,
     description = js
        ''Excluding fields in projection (using 0 or false) can unintentionally expose sensitive data'',
     severity = Medium,
     suggestion = js
        ''Use positive projections (inclusion with 1) instead of negative projections (exclusion with 0) to explicitly specify which fields to return.'',
     example = js ''db.users.find({}, { password: 0, secretKey: 0 });'',
     safeExample = js ''db.users.find({}, { username: 1, email: 1 });'',
     docUrl = js
        ''https://www.mongodb.com/docs/manual/reference/operator/projection/positional/#security'' \<rparr>"

text \<open>\<^verbatim>\<open>INSECURE_AGGREGATION\<close>, with the pattern \<^verbatim>\<open>/\.aggregate\s*\(\s*\[\s*\{\s*\$project\s*:\s*\{.*?(\$literal|\$eval|\$function).*?\}\s*\}/i\<close>\<close>

definition INSECURE_AGGREGATION_pattern :: RegExp where
  "INSECURE_AGGREGATION_pattern = RegExp_i 15
     (seq [lit ''.aggregate'', many esc_s, Char CHR ''('', many esc_s, Char CHR ''['',
      many esc_s, Char CHR ''{'', many esc_s, lit ''$project'', many esc_s, Char CHR '':'',
      many esc_s, Char CHR ''{'', lazy_many Dot, Group (alt [lit ''$literal'', lit ''$eval'',
      lit ''$function'']), lazy_many Dot, Char CHR ''}'', many esc_s, Char CHR ''}''])"

definition INSECURE_AGGREGATION :: UnsafePattern where
  "INSECURE_AGGREGATION = \<lparr>
     id' = js ''INSECURE_AGGREGATION'',
     name = js ''Insecure Aggregation Pipeline'',
     pattern = INSECURE_AGGREGATION_pattern,
     description = js
        ''Using operators like $literal, $eval, or $function in aggregation pipelines with user input can lead to code injection'',
     severity = High,
     suggestion = js
        ''Avoid using $literal, $eval, or $function operators with user input. Validate and sanitize all input used in aggregation pipelines.'',
     example = js ''db.users.aggregate([{ $project: { computed: { $eval: userInput } } }]);'',
     safeExample = js (''db.users.aggregate([{ $project: { computed: { $sum: ['' @ [CHR 0x22] @ ''$field1''
        @ [CHR 0x22] @ '', '' @ [CHR 0x22] @ ''$field2'' @ [CHR 0x22] @ ''] } } }]);''),
     docUrl = js
        ''https://www.mongodb.com/docs/manual/reference/operator/aggregation/project/#security'' \<rparr>"

text \<open>\<^verbatim>\<open>UNCONSTRAINED_QUERY\<close>, with the pattern \<^verbatim>\<open>/\.(find|findOne|update|delete)\s*\(\s*\{\s*\}\s*\)/i\<close>\<close>

definition UNCONSTRAINED_QUERY_pattern :: RegExp where
  "UNCONSTRAINED_QUERY_pattern = RegExp_i 16
     (seq [Char CHR ''.'', Group (alt [lit ''find'', lit ''findOne'', lit ''update'',
      lit ''delete'']), many esc_s, Char CHR ''('', many esc_s, Char CHR ''{'', many esc_s,
      Char CHR ''}'', many esc_s, Char CHR '')''])"

definition UNCONSTRAINED_QUERY :: UnsafePattern where
  "UNCONSTRAINED_QUERY = \<lparr>
     id' = js ''UNCONSTRAINED_QUERY'',
     name = js ''Unconstrained Query'',
     pattern = UNCONSTRAINED_QUERY_pattern,
     description = js
        ''Querying without constraints can lead to retrieving or modifying all documents, potentially leaking sensitive data'',
     severity = Medium,
     suggestion = js ''Always use specific query criteria to limit the scope of database operations.'',
     example = js ''db.users.find({});'',
     safeExample = js (''db.users.find({ active: true, role: '' @ [CHR 0x22] @ ''user'' @ [CHR 0x22] @
        '' });''),
     docUrl = js ''https://www.mongodb.com/docs/manual/reference/method/db.collection.find/#security'' \<rparr>"

text \<open>\<^verbatim>\<open>MASS_ASSIGNMENT\<close>, with the pattern \<^verbatim>\<open>/\.(insertOne|insertMany|updateOne|updateMany|findOneAndUpdate)\s*\(\s*.*?,\s*\{\s*\$set\s*:\s*req\.body\s*\}/i\<close>\<close>

definition MASS_ASSIGNMENT_pattern :: RegExp where
  "MASS_ASSIGNMENT_pattern = RegExp_i 17
     (seq [Char CHR ''.'', Group (alt [lit ''insertOne'', lit ''insertMany'', lit ''updateOne'',
      lit ''updateMany'', lit ''findOneAndUpdate'']), many esc_s, Char CHR ''('', many esc_s,
      lazy_many Dot, Char CHR '','', many esc_s, Char CHR ''{'', many esc_s, lit ''$set'',
      many esc_s, Char CHR '':'', many esc_s, lit ''req.body'', many esc_s, Char CHR ''}''])"

definition MASS_ASSIGNMENT :: UnsafePattern where
  "MASS_ASSIGNMENT = \<lparr>
     id' = js ''MASS_ASSIGNMENT'',
     name = js ''Mass Assignment Vulnerability'',
     pattern = MASS_ASSIGNMENT_pattern,
     description = js
        ''Using the entire request body in updates can lead to mass assignment vulnerabilities'',
     severity = High,
     suggestion = js
        ''Explicitly select which fields from the request body should be updated. Never use the entire req.body object directly.'',
     example = js ''db.users.updateOne({ _id }, { $set: req.body });'',
     safeExample = js (''const { name, email } = req.body;'' @ [CHR 0x0A] @
        ''db.users.updateOne({ _id }, { $set: { name, email } });''),
     docUrl = js ''https://www.mongodb.com/docs/manual/core/security-input-validation/'' \<rparr>"

text \<open>\<^verbatim>\<open>INSECURE_INDEXING\<close>, with the pattern \<^verbatim>\<open>/createIndex\s*\(\s*\{\s*.*?:\s*['"]text['"]\s*\}/i\<close>\<close>

definition INSECURE_INDEXING_pattern :: RegExp where
  "INSECURE_INDEXING_pattern = RegExp_i 18
     (seq [lit ''createIndex'', many esc_s, Char CHR ''('', many esc_s, Char CHR ''{'',
      many esc_s, lazy_many Dot, Char CHR '':'', many esc_s, CharClass False [ClassChar
      (CHR 0x27), ClassChar (CHR 0x22)], lit ''text'', CharClass False [ClassChar (CHR 0x27),
      ClassChar (CHR 0x22)], many esc_s, Char CHR ''}''])"

definition INSECURE_INDEXING :: UnsafePattern where
  "INSECURE_INDEXING = \<lparr>
     id' = js ''INSECURE_INDEXING'',
     name = js ''Insecure Text Indexing'',
     pattern = INSECURE_INDEXING_pattern,
     description = js
        ''Text indices can be resource-intensive and susceptible to DoS attacks if not properly secured'',
     severity = Medium,
     suggestion = js
        ''Limit text search queries, apply rate limiting, and ensure indices are created on specific fields only.'',
     example = js (''db.collection.createIndex({ content: '' @ [CHR 0x22] @ ''text'' @ [CHR 0x22] @
        '' });''),
     safeExample = js (''db.collection.createIndex({ title: '' @ [CHR 0x22] @ ''text'' @ [CHR 0x22] @
        '' }, { weights: { title: 10 }, default_language: '' @ [CHR 0x22] @ ''english'' @
        [CHR 0x22] @ '' });''),
     docUrl = js ''https://www.mongodb.com/docs/manual/core/text-search-languages/#security'' \<rparr>"

text \<open>\<^verbatim>\<open>UNAUTHORIZED_SCHEMA_MODIFICATION\<close>, with the pattern \<^verbatim>\<open>/\.(createCollection|dropCollection|createIndex|dropIndex)\s*\(/i\<close>\<close>

definition UNAUTHORIZED_SCHEMA_MODIFICATION_pattern :: RegExp where
  "UNAUTHORIZED_SCHEMA_MODIFICATION_pattern = RegExp_i 19
     (seq [Char CHR ''.'', Group (alt [lit ''createCollection'', lit ''dropCollection'',
      lit ''createIndex'', lit ''dropIndex'']), many esc_s, Char CHR ''(''])"

definition UNAUTHORIZED_SCHEMA_MODIFICATION :: UnsafePattern where
  "UNAUTHORIZED_SCHEMA_MODIFICATION = \<lparr>
     id' = js ''UNAUTHORIZED_SCHEMA_MODIFICATION'',
     name = js ''Unauthorized Schema Modification'',
     pattern = UNAUTHORIZED_SCHEMA_MODIFICATION_pattern,
     description = js
        ''Schema modification operations should be restricted to administrative functions only'',
     severity = Medium,
     suggestion = js
        ''Implement proper role-based access control for schema-modifying operations. Consider using migration scripts instead of runtime modifications.'',
     example = js (''db.createCollection('' @ [CHR 0x22] @ ''newCollection'' @ [CHR 0x22] @ '');''),
     safeExample = js
        ''// Use a migration framework or limit this operation to admin routes with proper authorization'',
     docUrl = js ''https://www.mongodb.com/docs/manual/core/security-operations/#security'' \<rparr>"

text \<open>\<^verbatim>\<open>INSECURE_OPERATOR_USAGE\<close>, with the pattern \<^verbatim>\<open>/\{\s*\$ne\s*:|"\$ne"\s*:|'\$ne'\s*:/i\<close>\<close>

definition INSECURE_OPERATOR_USAGE_pattern :: RegExp where
  "INSECURE_OPERATOR_USAGE_pattern = RegExp_i 20
     (alt [seq [Char CHR ''{'', many esc_s, lit ''$ne'', many esc_s, Char CHR '':''], seq [Char
      (CHR 0x22), lit ''$ne'', Char (CHR 0x22), many esc_s, Char CHR '':''], seq [Char
      (CHR 0x27), lit ''$ne'', Char (CHR 0x27), many esc_s, Char CHR '':'']])"

definition INSECURE_OPERATOR_USAGE :: UnsafePattern where
  "INSECURE_OPERATOR_USAGE = \<lparr>
     id' = js ''INSECURE_OPERATOR_USAGE'',
     name = js ''Insecure Operator Usage'',
     pattern = INSECURE_OPERATOR_USAGE_pattern,
     description = js ''Using $ne operator can lead to authentication bypass if not properly secured'',
     severity = High,
     suggestion = js
        ''Be cautious when using negation operators. Ensure proper authentication checks and input validation.'',
     example = js (''db.users.find({ username: username, password: { $ne: '' @ [CHR 0x22] @ [CHR 0x22]
        @ '' } });''),
     safeExample = js ''db.users.findOne({ username, password: hashedPassword });'',
     docUrl = js ''https://www.mongodb.com/docs/manual/reference/operator/query/ne/#security'' \<rparr>"

text \<open>\<^verbatim>\<open>UNVALIDATED_ID\<close>, with the pattern \<^verbatim>\<open>/(?<!isValid\()new\s+ObjectId\s*\(\s*.*?req\.(body|params|query)/i\<close>\<close>

definition UNVALIDATED_ID_pattern :: RegExp where
  "UNVALIDATED_ID_pattern = RegExp_i 21
     (seq [NegLookbehind (lit ''isValid(''), lit ''new'', many1 esc_s, lit ''ObjectId'',
      many esc_s, Char CHR ''('', many esc_s, lazy_many Dot, lit ''req.'', Group (alt
      [lit ''body'', lit ''params'', lit ''query''])])"

definition UNVALIDATED_ID :: UnsafePattern where
  "UNVALIDATED_ID = \<lparr>
     id' = js ''UNVALIDATED_ID'',
     name = js ''Unvalidated MongoDB ObjectId'',
     pattern = UNVALIDATED_ID_pattern,
     description = js ''Using unvalidated input as ObjectId can cause errors or unexpected behavior'',
     severity = Medium,
     suggestion = js
        ''Validate that the input is a valid ObjectId format before creating a new ObjectId.'',
     example = js ''db.users.findOne({ _id: new ObjectId(req.params.id) });'',
     safeExample = js (''if (ObjectId.isValid(req.params.id)) {'' @ [CHR 0x0A] @
        ''  db.users.findOne({ _id: new ObjectId(req.params.id) });'' @ [CHR 0x0A] @ ''}''),
     docUrl = js ''https://www.mongodb.com/docs/manual/reference/method/ObjectId/#security'' \<rparr>"

text \<open>\<^verbatim>\<open>PROJECTION_INJECTION\<close>, with the pattern \<^verbatim>\<open>/\.(find|findOne)\s*\(\s*.*?\s*,\s*req\.(body|params|query)/i\<close>\<close>

definition PROJECTION_INJECTION_pattern :: RegExp where
  "PROJECTION_INJECTION_pattern = RegExp_i 22
     (seq [Char CHR ''.'', Group (alt [lit ''find'', lit ''findOne'']), many esc_s,
      Char CHR ''('', many esc_s, lazy_many Dot, many esc_s, Char CHR '','', many esc_s,
      lit ''req.'', Group (alt [lit ''body'', lit ''params'', lit ''query''])])"

definition PROJECTION_INJECTION :: UnsafePattern where
  "PROJECTION_INJECTION = \<lparr>
     id' = js ''PROJECTION_INJECTION'',
     name = js ''Projection Injection'',
     pattern = PROJECTION_INJECTION_pattern,
     description = js
        ''Using user input directly in the projection parameter can lead to information disclosure'',
     severity = High,
     suggestion = js
        ''Validate and sanitize projection fields. Only allow a whitelist of permitted fields.'',
     example = js ''db.users.find({}, req.query.fields);'',
     safeExample = js (''const allowedFields = ['' @ [CHR 0x22] @ ''name'' @ [CHR 0x22] @ '', '' @
        [CHR 0x22] @ ''email'' @ [CHR 0x22] @ '', '' @ [CHR 0x22] @ ''createdAt'' @ [CHR 0x22] @
        ''];'' @ [CHR 0x0A] @ ''const projection = {};'' @ [CHR 0x0A] @
        ''for (const field of allowedFields) {'' @ [CHR 0x0A] @
        ''  if (req.query.fields.includes(field)) projection[field] = 1;'' @ [CHR 0x0A] @ ''}''
        @ [CHR 0x0A] @ ''db.users.find({}, projection);''),
     docUrl = js
        ''https://www.mongodb.com/docs/manual/reference/operator/projection/positional/#security'' \<rparr>"

text \<open>\<^verbatim>\<open>UNCONTROLLED_LIMIT\<close>, with the pattern \<^verbatim>\<open>/\.limit\s*\(\s*req\.(body|params|query)/i\<close>\<close>

definition UNCONTROLLED_LIMIT_pattern :: RegExp where
  "UNCONTROLLED_LIMIT_pattern = RegExp_i 23
     (seq [lit ''.limit'', many esc_s, Char CHR ''('', many esc_s, lit ''req.'', Group (alt
      [lit ''body'', lit ''params'', lit ''query''])])"

definition UNCONTROLLED_LIMIT :: UnsafePattern where
  "UNCONTROLLED_LIMIT = \<lparr>
     id' = js ''UNCONTROLLED_LIMIT'',
     name = js ''Uncontrolled Query Limit'',
     pattern = UNCONTROLLED_LIMIT_pattern,
     description = js ''Using unvalidated user input for limit can lead to denial of service'',
     severity = Medium,
     suggestion = js ''Apply reasonable upper and lower bounds to limit values from user input.'',
     example = js ''db.users.find({}).limit(req.query.limit);'',
     safeExample = js (''const limit = Math.min(Math.max(parseInt(req.query.limit) || 10, 1), 100);'' @
        [CHR 0x0A] @ ''db.users.find({}).limit(limit);''),
     docUrl = js ''https://www.mongodb.com/docs/manual/reference/method/db.collection.find/#security'' \<rparr>"

text \<open>\<^verbatim>\<open>SORT_INJECTION\<close>, with the pattern \<^verbatim>\<open>/\.sort\s*\(\s*req\.(body|params|query)/i\<close>\<close>

definition SORT_INJECTION_pattern :: RegExp where
  "SORT_INJECTION_pattern = RegExp_i 24
     (seq [lit ''.sort'', many esc_s, Char CHR ''('', many esc_s, lit ''req.'', Group (alt
      [lit ''body'', lit ''params'', lit ''query''])])"

definition SORT_INJECTION :: UnsafePattern where
  "SORT_INJECTION = \<lparr>
     id' = js ''SORT_INJECTION'',
     name = js ''Sort Injection'',
     pattern = SORT_INJECTION_pattern,
     description = js ''Using unvalidated sort parameters can lead to performance issues or DoS'',
     severity = Medium,
     suggestion = js ''Validate sort fields and directions. Only allow sorting on indexed fields.'',
     example = js ''db.users.find({}).sort(req.query.sort);'',
     safeExample = js (''const allowedSortFields = ['' @ [CHR 0x22] @ ''name'' @ [CHR 0x22] @ '', '' @
        [CHR 0x22] @ ''createdAt'' @ [CHR 0x22] @ ''];'' @ [CHR 0x0A] @
        ''const sortField = allowedSortFields.includes(req.query.sortField) ? req.query.sortField : ''
        @ [CHR 0x22] @ ''createdAt'' @ [CHR 0x22] @ '';'' @ [CHR 0x0A] @
        ''const sortDir = req.query.sortDir === '' @ [CHR 0x22] @ ''desc'' @ [CHR 0x22] @
        '' ? -1 : 1;'' @ [CHR 0x0A] @ ''db.users.find({}).sort({ [sortField]: sortDir });''),
     docUrl = js ''https://www.mongodb.com/docs/manual/reference/method/db.collection.find/#security'' \<rparr>"

text \<open>\<^verbatim>\<open>OBJECT_SPREAD_INJECTION\<close>, with the pattern \<^verbatim>\<open>/\.(find|findOne|aggregate|update|delete)\s*\(\s*\{\s*.*?,?\s*\.\.\.(\w+).*?\}/i\<close>\<close>

definition OBJECT_SPREAD_INJECTION_pattern :: RegExp where
  "OBJECT_SPREAD_INJECTION_pattern = RegExp_i 25
     (seq [Char CHR ''.'', Group (alt [lit ''find'', lit ''findOne'', lit ''aggregate'',
      lit ''update'', lit ''delete'']), many esc_s, Char CHR ''('', many esc_s, Char CHR ''{'',
      many esc_s, lazy_many Dot, optional (Char CHR '',''), many esc_s, lit ''...'', Group
      (many1 esc_w), lazy_many Dot, Char CHR ''}''])"

definition OBJECT_SPREAD_INJECTION :: UnsafePattern where
  "OBJECT_SPREAD_INJECTION = \<lparr>
     id' = js ''OBJECT_SPREAD_INJECTION'',
     name = js ''Object Spread Injection'',
     pattern = OBJECT_SPREAD_INJECTION_pattern,
     description = js
        ''Spreading objects directly into MongoDB queries can lead to query injection if the spread object is untrusted'',
     severity = High,
     suggestion = js
        ''Explicitly select only the required fields from the object instead of spreading the entire object into the query'',
     example = js ''db.collection.find({ field: value, ...userProvidedObject });'',
     safeExample = js (''const { safeField1, safeField2 } = userProvidedObject;'' @ [CHR 0x0A] @
        ''db.collection.find({ field: value, safeField1, safeField2 });''),
     docUrl = js ''https://www.mongodb.com/docs/manual/reference/operator/query/positional/#security'' \<rparr>"

text \<open>\<^verbatim>\<open>DYNAMIC_OPERATOR_ASSIGNMENT\<close>, with the pattern \<^verbatim>\<open>/\w+\s*=\s*\{\s*\$\w+:/i\<close>\<close>

definition DYNAMIC_OPERATOR_ASSIGNMENT_pattern :: RegExp where
  "DYNAMIC_OPERATOR_ASSIGNMENT_pattern = RegExp_i 26
     (seq [many1 esc_w, many esc_s, Char CHR ''='', many esc_s, Char CHR ''{'', many esc_s,
      Char CHR ''$'', many1 esc_w, Char CHR '':''])"

definition DYNAMIC_OPERATOR_ASSIGNMENT :: UnsafePattern where
  "DYNAMIC_OPERATOR_ASSIGNMENT = \<lparr>
     id' = js ''DYNAMIC_OPERATOR_ASSIGNMENT'',
     name = js ''Dynamic Operator Assignment'',
     pattern = DYNAMIC_OPERATOR_ASSIGNMENT_pattern,
     description = js
        ''Dynamically assigning MongoDB operators like $in, $gte, $lte to query fields can lead to operator injection attacks'',
     severity = Medium,
     suggestion = js ''Validate both the operators and values before assigning them to query properties'',
     example = js ''query.field = { $in: userProvidedArray }; // Or query._id = { $gte: someValue };'',
     safeExample = js (''if (Array.isArray(allowedValues) && allowedValues.every(v => typeof v === '' @
        [CHR 0x27] @ ''string'' @ [CHR 0x27] @ '')) {'' @ [CHR 0x0A] @
        ''  query.field = { $in: allowedValues };'' @ [CHR 0x0A] @ ''}''),
     docUrl = js ''https://www.mongodb.com/docs/manual/reference/operator/query/positional/#security'' \<rparr>"

text \<open>\<^verbatim>\<open>MONGOOSE_QUERY_EXEC_MISSING\<close>, with the pattern \<^verbatim>\<open>/\.(find|findOne|findById|update|delete|count)(?!\s*\(\s*\)|\s*\(\s*.*?\s*\)\s*\.(exec|then|catch)\b)/i\<close>\<close>

definition MONGOOSE_QUERY_EXEC_MISSING_pattern :: RegExp where
  "MONGOOSE_QUERY_EXEC_MISSING_pattern = RegExp_i 27
     (seq [Char CHR ''.'', Group (alt [lit ''find'', lit ''findOne'', lit ''findById'',
      lit ''update'', lit ''delete'', lit ''count'']), NegLookahead (alt [seq [many esc_s,
      Char CHR ''('', many esc_s, Char CHR '')''], seq [many esc_s, Char CHR ''('', many esc_s,
      lazy_many Dot, many esc_s, Char CHR '')'', many esc_s, Char CHR ''.'', Group (alt
      [lit ''exec'', lit ''then'', lit ''catch'']), WordBoundary]])])"

definition MONGOOSE_QUERY_EXEC_MISSING :: UnsafePattern where
  "MONGOOSE_QUERY_EXEC_MISSING = \<lparr>
     id' = js ''MONGOOSE_QUERY_EXEC_MISSING'',
     name = js ''Mongoose Query Exec Missing'',
     pattern = MONGOOSE_QUERY_EXEC_MISSING_pattern,
     description = js
        ''Not calling .exec() or not using a callback/Promise with Mongoose queries can lead to unexpected behavior'',
     severity = Low,
     suggestion = js
        ''Always use .exec() or a callback/Promise with Mongoose queries to ensure proper error handling'',
     example = js ''const users = User.find({ active: true });'',
     safeExample = js ''const users = await User.find({ active: true }).exec();'',
     docUrl = js ''https://www.mongodb.com/docs/manual/reference/method/db.collection.find/#security'' \<rparr>"

text \<open>\<^verbatim>\<open>UNHANDLED_PROMISE_REJECTION\<close>, with the pattern \<^verbatim>\<open>/await\s+(\w+\.)*(find|findOne|findById|update|delete|aggregate|count).*?(?!\s*try\s*\{)/i\<close>\<close>

definition UNHANDLED_PROMISE_REJECTION_pattern :: RegExp where
  "UNHANDLED_PROMISE_REJECTION_pattern = RegExp_i 28
     (seq [lit ''await'', many1 esc_s, many (Group (seq [many1 esc_w, Char CHR ''.''])), Group
      (alt [lit ''find'', lit ''findOne'', lit ''findById'', lit ''update'', lit ''delete'',
      lit ''aggregate'', lit ''count'']), lazy_many Dot, NegLookahead (seq [many esc_s,
      lit ''try'', many esc_s, Char CHR ''{''])])"

definition UNHANDLED_PROMISE_REJECTION :: UnsafePattern where
  "UNHANDLED_PROMISE_REJECTION = \<lparr>
     id' = js ''UNHANDLED_PROMISE_REJECTION'',
     name = js ''Unhandled Promise Rejection'',
     pattern = UNHANDLED_PROMISE_REJECTION_pattern,
     description = js
        ''MongoDB operations without proper try/catch blocks can lead to unhandled promise rejections'',
     severity = Medium,
     suggestion = js ''Always wrap MongoDB operations in try/catch blocks to handle errors properly'',
     example = js (''const users = await db.collection('' @ [CHR 0x27] @ ''users'' @ [CHR 0x27] @
        '').find().toArray();''),
     safeExample = js (''try {'' @ [CHR 0x0A] @ ''  const users = await db.collection('' @ [CHR 0x27] @
        ''users'' @ [CHR 0x27] @ '').find().toArray();'' @ [CHR 0x0A] @ ''} catch (error) {'' @
        [CHR 0x0A] @ ''  // Handle error'' @ [CHR 0x0A] @ ''}''),
     docUrl = js
        ''https://www.mongodb.com/docs/manual/core/transactions-in-applications/#error-handling'' \<rparr>"

text \<open>\<^verbatim>\<open>UNESCAPED_REGEX_INPUT\<close>, with the pattern \<^verbatim>\<open>/\{\s*['"a-zA-Z0-9_]+\s*:\s*\{\s*\$regex\s*:\s*(\w+)(?!\()/i\<close>\<close>

definition UNESCAPED_REGEX_INPUT_pattern :: RegExp where
  "UNESCAPED_REGEX_INPUT_pattern = RegExp_i 29
     (seq [Char CHR ''{'', many esc_s, many1 (CharClass False [ClassChar (CHR 0x27), ClassChar
      (CHR 0x22), ClassRange CHR ''a'' CHR ''z'', ClassRange CHR ''A'' CHR ''Z'',
      ClassRange CHR ''0'' CHR ''9'', ClassChar CHR ''_'']), many esc_s, Char CHR '':'',
      many esc_s, Char CHR ''{'', many esc_s, lit ''$regex'', many esc_s, Char CHR '':'',
      many esc_s, Group (many1 esc_w), NegLookahead (Char CHR ''('')])"

definition UNESCAPED_REGEX_INPUT :: UnsafePattern where
  "UNESCAPED_REGEX_INPUT = \<lparr>
     id' = js ''UNESCAPED_REGEX_INPUT'',
     name = js ''Unescaped Regex Input'',
     pattern = UNESCAPED_REGEX_INPUT_pattern,
     description = js ''Using unescaped user input in $regex queries can lead to regex injection attacks'',
     severity = High,
     suggestion = js ''Escape special regex characters in user input before using in $regex queries'',
     example = js ''db.users.find({ username: { $regex: userInput } });'',
     safeExample = js (''const escapedInput = userInput.replace(/[.*+?^${}()|['' @ [CHR 0x5C] @ '']'' @
        [CHR 0x5C] @ [CHR 0x5C] @ '']/g, '' @ [CHR 0x27] @ [CHR 0x5C] @ [CHR 0x5C] @ ''$&'' @
        [CHR 0x27] @ '');'' @ [CHR 0x0A] @
        ''db.users.find({ username: { $regex: escapedInput } });''),
     docUrl = js ''https://www.mongodb.com/docs/manual/reference/operator/query/regex/#security'' \<rparr>"

text \<open>\<^verbatim>\<open>SENSITIVE_FIELD_EXPOSURE\<close>, with the pattern \<^verbatim>\<open>/\.\s*find.*\{\s*\}\s*(?!.*\{\s*password\s*:\s*0|\s*passwordHash\s*:\s*0)/i\<close>\<close>

definition SENSITIVE_FIELD_EXPOSURE_pattern :: RegExp where
  "SENSITIVE_FIELD_EXPOSURE_pattern = RegExp_i 30
     (seq [Char CHR ''.'', many esc_s, lit ''find'', many Dot, Char CHR ''{'', many esc_s,
      Char CHR ''}'', many esc_s, NegLookahead (alt [seq [many Dot, Char CHR ''{'', many esc_s,
      lit ''password'', many esc_s, Char CHR '':'', many esc_s, Char CHR ''0''], seq
      [many esc_s, lit ''passwordHash'', many esc_s, Char CHR '':'', many esc_s,
      Char CHR ''0'']])])"

definition SENSITIVE_FIELD_EXPOSURE :: UnsafePattern where
  "SENSITIVE_FIELD_EXPOSURE = \<lparr>
     id' = js ''SENSITIVE_FIELD_EXPOSURE'',
     name = js ''Sensitive Field Exposure'',
     pattern = SENSITIVE_FIELD_EXPOSURE_pattern,
     description = js
        ''Querying without explicitly excluding sensitive fields can expose passwords and other confidential data'',
     severity = High,
     suggestion = js
        ''Always exclude sensitive fields like passwords or use explicit projection to include only necessary fields'',
     example = js ''db.users.find();'',
     safeExample = js (''db.users.find({}, { password: 0, passwordHash: 0 });'' @ [CHR 0x0A] @
        ''// Or better: db.users.find({}, { username: 1, email: 1 });''),
     docUrl = js ''https://www.mongodb.com/docs/manual/reference/method/db.collection.find/#security'' \<rparr>"

text \<open>\<^verbatim>\<open>UNCONTROLLED_SKIP\<close>, with the pattern \<^verbatim>\<open>/\.skip\s*\(\s*req\.(body|params|query)/i\<close>\<close>

definition UNCONTROLLED_SKIP_pattern :: RegExp where
  "UNCONTROLLED_SKIP_pattern = RegExp_i 31
     (seq [lit ''.skip'', many esc_s, Char CHR ''('', many esc_s, lit ''req.'', Group (alt
      [lit ''body'', lit ''params'', lit ''query''])])"

definition UNCONTROLLED_SKIP :: UnsafePattern where
  "UNCONTROLLED_SKIP = \<lparr>
     id' = js ''UNCONTROLLED_SKIP'',
     name = js ''Uncontrolled Skip Value'',
     pattern = UNCONTROLLED_SKIP_pattern,
     description = js ''Using unvalidated user input for skip can lead to performance issues or DoS'',
     severity = Medium,
     suggestion = js ''Apply reasonable upper and lower bounds to skip values from user input'',
     example = js ''db.users.find().skip(req.query.skip);'',
     safeExample = js (''const skip = Math.min(Math.max(parseInt(req.query.skip) || 0, 0), 1000);'' @
        [CHR 0x0A] @ ''db.users.find().skip(skip);''),
     docUrl = js ''https://www.mongodb.com/docs/manual/reference/method/db.collection.find/#security'' \<rparr>"

text \<open>\<^verbatim>\<open>SECRETS_IN_QUERY\<close>, with the pattern \<^verbatim>\<open>/(api[_-]?key|secret|password|token|auth[_-]?token|credential)[^\n]{1,30}(=|:)[^\n]{1,30}/i\<close>\<close>

definition SECRETS_IN_QUERY_pattern :: RegExp where
  "SECRETS_IN_QUERY_pattern = RegExp_i 32
     (seq [Group (alt [seq [lit ''api'', optional (CharClass False [ClassChar CHR ''_'',
      ClassChar CHR ''-'']), lit ''key''], lit ''secret'', lit ''password'', lit ''token'', seq
      [lit ''auth'', optional (CharClass False [ClassChar CHR ''_'', ClassChar CHR ''-'']),
      lit ''token''], lit ''credential'']), Quant (CharClass True [ClassChar (CHR 0x0A)]) 1
      (Some 30) True, Group (alt [Char CHR ''='', Char CHR '':'']), Quant (CharClass True
      [ClassChar (CHR 0x0A)]) 1 (Some 30) True])"

definition SECRETS_IN_QUERY :: UnsafePattern where
  "SECRETS_IN_QUERY = \<lparr>
     id' = js ''SECRETS_IN_QUERY'',
     name = js ''Secrets in Query'',
     pattern = SECRETS_IN_QUERY_pattern,
     description = js
        ''Hardcoded secrets or credentials in database queries can lead to security breaches'',
     severity = High,
     suggestion = js
        ''Never hardcode secrets in queries. Use environment variables or secure secret management'',
     example = js (''db.users.find({ apiKey: '' @ [CHR 0x27] @ ''sk_live_123456789abcdef'' @ [CHR 0x27]
        @ '' });''),
     safeExample = js ''db.users.find({ apiKey: process.env.API_KEY });'',
     docUrl = js ''https://www.mongodb.com/docs/manual/core/security-input-validation/'' \<rparr>"

text \<open>\<^verbatim>\<open>DANGEROUS_PROJECTION\<close>, with the pattern \<^verbatim>\<open>/\$\s*:\s*(\{|\[|\$)/i\<close>\<close>

definition DANGEROUS_PROJECTION_pattern :: RegExp where
  "DANGEROUS_PROJECTION_pattern = RegExp_i 33
     (seq [Char CHR ''$'', many esc_s, Char CHR '':'', many esc_s, Group (alt [Char CHR ''{'',
      Char CHR ''['', Char CHR ''$''])])"

definition DANGEROUS_PROJECTION :: UnsafePattern where
  "DANGEROUS_PROJECTION = \<lparr>
     id' = js ''DANGEROUS_PROJECTION'',
     name = js ''Dangerous Projection Operators'',
     pattern = DANGEROUS_PROJECTION_pattern,
     description = js ''Using the $ projection operator with untrusted input can lead to data exposure'',
     severity = High,
     suggestion = js ''Avoid using the $ operator in projections with user input'',
     example = js ''db.users.find({}, { $: userInput });'',
     safeExample = js ''// Use explicit field projections instead'',
     docUrl = js
        ''https://www.mongodb.com/docs/manual/reference/operator/projection/positional/#security'' \<rparr>"

text \<open>\<^verbatim>\<open>UNVALIDATED_UPDATE_OPERATORS\<close>, with the pattern \<^verbatim>\<open>/\.\s*(update|updateOne|updateMany|findOneAndUpdate)\s*\(\s*.*?,\s*\{\s*\$\w+\s*:/i\<close>\<close>

definition UNVALIDATED_UPDATE_OPERATORS_pattern :: RegExp where
  "UNVALIDATED_UPDATE_OPERATORS_pattern = RegExp_i 34
     (seq [Char CHR ''.'', many esc_s, Group (alt [lit ''update'', lit ''updateOne'',
      lit ''updateMany'', lit ''findOneAndUpdate'']), many esc_s, Char CHR ''('', many esc_s,
      lazy_many Dot, Char CHR '','', many esc_s, Char CHR ''{'', many esc_s, Char CHR ''$'',
      many1 esc_w, many esc_s, Char CHR '':''])"

definition UNVALIDATED_UPDATE_OPERATORS :: UnsafePattern where
  "UNVALIDATED_UPDATE_OPERATORS = \<lparr>
     id' = js ''UNVALIDATED_UPDATE_OPERATORS'',
     name = js ''Unvalidated Update Operators'',
     pattern = UNVALIDATED_UPDATE_OPERATORS_pattern,
     description = js
        ''Using update operators like $set, $unset, $inc without validation can allow field manipulation attacks'',
     severity = High,
     suggestion = js ''Validate update operators and fields before executing update operations'',
     example = js ''db.users.updateOne({ _id }, req.body);'',
     safeExample = js (''const allowedFields = ['' @ [CHR 0x27] @ ''name'' @ [CHR 0x27] @ '', '' @
        [CHR 0x27] @ ''email'' @ [CHR 0x27] @ ''];'' @ [CHR 0x0A] @ ''const update = {};'' @
        [CHR 0x0A] @ ''for (const [key, value] of Object.entries(req.body)) {'' @ [CHR 0x0A] @
        ''  if (allowedFields.includes(key)) update[key] = value;'' @ [CHR 0x0A] @ ''}'' @
        [CHR 0x0A] @ ''db.users.updateOne({ _id }, { $set: update });''),
     docUrl = js ''https://www.mongodb.com/docs/manual/core/security-input-validation/'' \<rparr>"

definition unsafePatterns :: "UnsafePattern list" where
  "unsafePatterns =
    [FUNCTION_PARAMETER_INJECTION, TEMPLATE_STRING_INJECTION, ARRAY_FILTER_INJECTION,
     DIRECT_QUERY_VARIABLE_ASSIGNMENT, BULK_OPERATION_INJECTION, EVAL_USAGE,
     INSECURE_AUTH_CHECKS, WEAK_INDEXING, DIRECT_JSON_PARSE,
     TRANSACTION_WITHOUT_ERROR_HANDLING, NOSQL_INJECTION_OBJECT, NOSQL_INJECTION_REGEX,
     NOSQL_INJECTION_STRING, UNVALIDATED_USER_INPUT, INSECURE_PROJECTION,
     INSECURE_AGGREGATION, UNCONSTRAINED_QUERY, MASS_ASSIGNMENT, INSECURE_INDEXING,
     UNAUTHORIZED_SCHEMA_MODIFICATION, INSECURE_OPERATOR_USAGE, UNVALIDATED_ID,
     PROJECTION_INJECTION, UNCONTROLLED_LIMIT, SORT_INJECTION, OBJECT_SPREAD_INJECTION,
     DYNAMIC_OPERATOR_ASSIGNMENT, MONGOOSE_QUERY_EXEC_MISSING,
     UNHANDLED_PROMISE_REJECTION, UNESCAPED_REGEX_INPUT, SENSITIVE_FIELD_EXPOSURE,
     UNCONTROLLED_SKIP, SECRETS_IN_QUERY, DANGEROUS_PROJECTION,
     UNVALIDATED_UPDATE_OPERATORS]"

section \<open>The scanner\<close>

text \<open>
  \<^verbatim>\<open>Array.prototype.forEach\<close> calls the callback with each element and its index, in
  order. The callbacks of the scanner push to \<^verbatim>\<open>detections\<close> and call
  \<^verbatim>\<open>RegExp.prototype.test\<close>, so the state that the loops thread is the array of the
  detections so far and the store.
\<close>

fun forEachFrom :: "nat \<Rightarrow> ('a \<Rightarrow> nat \<Rightarrow> 's \<Rightarrow> 's) \<Rightarrow> 'a list \<Rightarrow> 's \<Rightarrow> 's" where
  "forEachFrom k f [] st = st"
| "forEachFrom k f (x # xs) st = forEachFrom (Suc k) f xs (f x k st)"

definition forEach :: "('a \<Rightarrow> nat \<Rightarrow> 's \<Rightarrow> 's) \<Rightarrow> 'a list \<Rightarrow> 's \<Rightarrow> 's" where
  "forEach f xs st = forEachFrom 0 f xs st"

text \<open>The first version of \<^verbatim>\<open>scanForUnsafePatterns\<close>, without the parameter \<^verbatim>\<open>filePath\<close>.\<close>

definition scanForUnsafePatterns_earlier ::
  "jsstring \<Rightarrow> UnsafePattern list \<Rightarrow> store \<Rightarrow> Detection list \<times> store" where
  "scanForUnsafePatterns_earlier content patterns \<sigma> =
     (let lines = str_split content newline in
      forEach (\<lambda>line index.
        forEach (\<lambda>pattern _ (detections, \<tau>).
          case test (UnsafePattern.pattern pattern) line \<tau> of
            (matched, \<tau>') \<Rightarrow>
              if matched
              then (detections @
                      [\<lparr>Detection.pattern = pattern,
                        lineNumber = index + 1,
                        matchedText = trim line\<rparr>], \<tau>')
              else (detections, \<tau>'))
          patterns)
        lines ([], \<sigma>))"

text \<open>
  The second version, with the optional \<^verbatim>\<open>filePath\<close> (\<open>None\<close> when the argument is
  omitted) and the check that skips the file that defines the catalog. In the condition,
  \<^verbatim>\<open>undefined\<close> and the empty string are falsy.
\<close>

definition scanForUnsafePatterns ::
  "jsstring \<Rightarrow> UnsafePattern list \<Rightarrow> jsstring option \<Rightarrow> store \<Rightarrow> Detection list \<times> store" where
  "scanForUnsafePatterns content patterns filePath \<sigma> =
     (if (case filePath of
            None \<Rightarrow> False
          | Some path \<Rightarrow>
              path \<noteq> [] \<and>
              (str_includes path (js ''unsafe-queries.ts'') \<or>
               str_includes path (js ''unsafe-queries.js'')))
      then ([], \<sigma>)
      else
        let lines = str_split content newline in
        forEach (\<lambda>line index.
          forEach (\<lambda>pattern _ (detections, \<tau>).
            case test (UnsafePattern.pattern pattern) line \<tau> of
              (matched, \<tau>') \<Rightarrow>
                if matched
                then (detections @
                        [\<lparr>Detection.pattern = pattern,
                          lineNumber = index + 1,
                          matchedText = trim line\<rparr>], \<tau>')
                else (detections, \<tau>'))
            patterns)
          lines ([], \<sigma>))"

text \<open>\<^verbatim>\<open>getSeverityColor\<close>, the same in both versions: a \<^verbatim>\<open>switch\<close> with a default.\<close>

definition getSeverityColor :: "jsstring \<Rightarrow> jsstring" where
  "getSeverityColor sev =
     (if sev = js ''high'' then js ''#FF4D4F''
      else if sev = js ''medium'' then js ''#FAAD14''
      else if sev = js ''low'' then js ''#52C41A''
      else js ''#1890FF'')"

section \<open>What a scan reports\<close>

text \<open>The callback of the inner loop of both versions, named for the proofs.\<close>

definition visit ::
  "jsstring \<Rightarrow> nat \<Rightarrow> UnsafePattern \<Rightarrow> nat \<Rightarrow> Detection list \<times> store \<Rightarrow> Detection list \<times> store" where
  "visit line index p i st =
     (case st of (detections, \<tau>) \<Rightarrow>
        case test (UnsafePattern.pattern p) line \<tau> of
          (matched, \<tau>') \<Rightarrow>
            if matched
            then (detections @
                    [\<lparr>Detection.pattern = p,
                      lineNumber = index + 1,
                      matchedText = trim line\<rparr>], \<tau>')
            else (detections, \<tau>'))"

text \<open>
  The detection that the callback pushes for a rule that matched the line at \<open>index\<close>, and
  the detections that the loops push when no rule has a global or sticky expression: for
  each line in order, for each rule in the order of the array, one detection when the
  rule matches the line.
\<close>

definition detection :: "UnsafePattern \<Rightarrow> nat \<Rightarrow> jsstring \<Rightarrow> Detection" where
  "detection p index line =
     \<lparr>Detection.pattern = p, lineNumber = index + 1, matchedText = trim line\<rparr>"

definition detectionsOfLine :: "UnsafePattern list \<Rightarrow> nat \<Rightarrow> jsstring \<Rightarrow> Detection list" where
  "detectionsOfLine patterns index line =
     map (\<lambda>p. detection p index line)
       (filter (\<lambda>p. matches (UnsafePattern.pattern p) line) patterns)"

definition detectionsFrom :: "nat \<Rightarrow> UnsafePattern list \<Rightarrow> jsstring list \<Rightarrow> Detection list" where
  "detectionsFrom k patterns lines =
     concat (map (\<lambda>(index, line). detectionsOfLine patterns index line) (enumerate k lines))"

text \<open>The position of a rule in an array of rules (the length of the array when it is not there).\<close>

fun indexOf :: "'a list \<Rightarrow> 'a \<Rightarrow> nat" where
  "indexOf [] x = 0"
| "indexOf (y # ys) x = (if x = y then 0 else Suc (indexOf ys x))"

text \<open>
  The order of a report: by line, and on one line by the position of the rule in the array.
\<close>

definition precedes :: "UnsafePattern list \<Rightarrow> Detection \<Rightarrow> Detection \<Rightarrow> bool" where
  "precedes patterns a b =
     (lineNumber a < lineNumber b \<or>
      (lineNumber a = lineNumber b \<and>
       indexOf patterns (Detection.pattern a) < indexOf patterns (Detection.pattern b)))"

section \<open>The scenarios\<close>

text \<open>
  Two lines of the scenarios:
  \<^verbatim>\<open>db.users.find({ $where: "this.username === '" + username + "'" });\<close> and
  \<^verbatim>\<open>db.users.find({ active: true, role: "user" });\<close>
\<close>

definition scenario_where :: jsstring where
  "scenario_where =
     js (''db.users.find({ $where: '' @ [CHR 0x22] @ ''this.username === '' @ [CHR 0x27, CHR 0x22] @
         '' + username + '' @ [CHR 0x22, CHR 0x27, CHR 0x22] @ '' });'')"

definition scenario_safe :: jsstring where
  "scenario_safe =
     js (''db.users.find({ active: true, role: '' @ [CHR 0x22] @ ''user'' @ [CHR 0x22] @ '' });'')"

section \<open>Properties of the model\<close>

subsection \<open>Strings\<close>

lemma split_from_not_Nil: "split_from sep piece s \<noteq> []"
  by (induction s arbitrary: piece) auto

lemma str_split_not_Nil: "str_split s sep \<noteq> []"
  by (simp add: str_split_def split_from_not_Nil)

lemma split_from_join:
  "concat (map (\<lambda>p. p @ [sep]) (split_from sep piece s)) = rev piece @ s @ [sep]"
  by (induction s arbitrary: piece) auto

lemma str_split_join: "concat (map (\<lambda>p. p @ [sep]) (str_split s sep)) = s @ [sep]"
  by (simp add: str_split_def split_from_join)

lemma split_from_no_sep:
  "sep \<notin> set piece \<Longrightarrow> p \<in> set (split_from sep piece s) \<Longrightarrow> sep \<notin> set p"
proof (induction s arbitrary: piece)
  case Nil
  then show ?case by auto
next
  case (Cons c cs)
  show ?case
  proof (cases "c = sep")
    case True
    with Cons.prems have "p = rev piece \<or> p \<in> set (split_from sep [] cs)" by auto
    then show ?thesis using Cons.prems(1) Cons.IH [of "[]"] by auto
  next
    case False
    with Cons.prems have "p \<in> set (split_from sep (c # piece) cs)" by auto
    then show ?thesis using Cons.prems(1) False Cons.IH [of "c # piece"] by auto
  qed
qed

lemma str_split_no_sep: "p \<in> set (str_split s sep) \<Longrightarrow> sep \<notin> set p"
  using split_from_no_sep [of sep "[]"] by (simp add: str_split_def)

lemma str_includes_sublist: "str_includes s t \<longleftrightarrow> sublist t s"
  by (induction s) (auto simp: sublist_Cons_right)

lemma suffix_str_includes: "suffix t s \<Longrightarrow> str_includes s t"
  by (simp add: str_includes_sublist)

subsection \<open>test without flags\<close>

lemma test_stateless: "stateless R \<Longrightarrow> test R S \<sigma> = (matches R S, \<sigma>)"
  by (auto simp: stateless_def test_def RegExpBuiltinExec_def matches_def split: option.splits)

subsection \<open>loops\<close>

lemma scanForUnsafePatterns_earlier_visit:
  "scanForUnsafePatterns_earlier content patterns \<sigma> =
     forEachFrom 0 (\<lambda>line index. forEachFrom 0 (visit line index) patterns)
       (str_split content newline) ([], \<sigma>)"
proof -
  have "\<And>line index. (\<lambda>pattern _ (detections, \<tau>).
          case test (UnsafePattern.pattern pattern) line \<tau> of
            (matched, \<tau>') \<Rightarrow>
              if matched
              then (detections @
                      [\<lparr>Detection.pattern = pattern,
                        lineNumber = index + 1,
                        matchedText = trim line\<rparr>], \<tau>')
              else (detections, \<tau>')) = visit line index"
    by (intro ext) (simp add: visit_def)
  then show ?thesis
    by (simp add: scanForUnsafePatterns_earlier_def forEach_def [abs_def])
qed

lemma scanForUnsafePatterns_visit:
  "scanForUnsafePatterns content patterns filePath \<sigma> =
     (if (case filePath of
            None \<Rightarrow> False
          | Some path \<Rightarrow>
              path \<noteq> [] \<and>
              (str_includes path (js ''unsafe-queries.ts'') \<or>
               str_includes path (js ''unsafe-queries.js'')))
      then ([], \<sigma>)
      else forEachFrom 0 (\<lambda>line index. forEachFrom 0 (visit line index) patterns)
             (str_split content newline) ([], \<sigma>))"
proof -
  have "\<And>line index. (\<lambda>pattern _ (detections, \<tau>).
          case test (UnsafePattern.pattern pattern) line \<tau> of
            (matched, \<tau>') \<Rightarrow>
              if matched
              then (detections @
                      [\<lparr>Detection.pattern = pattern,
                        lineNumber = index + 1,
                        matchedText = trim line\<rparr>], \<tau>')
              else (detections, \<tau>')) = visit line index"
    by (intro ext) (simp add: visit_def)
  then show ?thesis
    by (simp add: scanForUnsafePatterns_def forEach_def [abs_def])
qed

text \<open>The inner loop appends detections of the line, at most one for each rule.\<close>

lemma inner_loop:
  "\<exists>new \<tau>'. forEachFrom k (visit line index) ps (ds, \<tau>) = (ds @ new, \<tau>') \<and>
      set new \<subseteq> (\<lambda>p. detection p index line) ` set ps \<and> length new \<le> length ps"
proof (induction ps arbitrary: k ds \<tau>)
  case Nil
  then show ?case by simp
next
  case (Cons p ps)
  obtain m \<tau>1 where t: "test (UnsafePattern.pattern p) line \<tau> = (m, \<tau>1)" by force
  define ds1 where "ds1 = (if m then ds @ [detection p index line] else ds)"
  have step: "visit line index p k (ds, \<tau>) = (ds1, \<tau>1)"
    by (simp add: visit_def t ds1_def detection_def)
  from Cons.IH [of "Suc k" ds1 \<tau>1]
  obtain new \<tau>' where
    run: "forEachFrom (Suc k) (visit line index) ps (ds1, \<tau>1) = (ds1 @ new, \<tau>')"
    and new: "set new \<subseteq> (\<lambda>p. detection p index line) ` set ps" "length new \<le> length ps"
    by blast
  show ?case
  proof (intro exI conjI)
    show "forEachFrom k (visit line index) (p # ps) (ds, \<tau>) =
            (ds @ (if m then detection p index line # new else new), \<tau>')"
      using run by (auto simp: step ds1_def)
    show "set (if m then detection p index line # new else new)
            \<subseteq> (\<lambda>p. detection p index line) ` set (p # ps)"
      using new(1) by auto
    show "length (if m then detection p index line # new else new) \<le> length (p # ps)"
      using new(2) by auto
  qed
qed

text \<open>Without global and sticky expressions the loops leave the store as it is.\<close>

lemma inner_loop_stateless:
  "\<forall>p \<in> set ps. stateless (UnsafePattern.pattern p) \<Longrightarrow>
   forEachFrom k (visit line index) ps (ds, \<tau>) = (ds @ detectionsOfLine ps index line, \<tau>)"
proof (induction ps arbitrary: k ds)
  case Nil
  then show ?case by (simp add: detectionsOfLine_def)
next
  case (Cons p ps)
  then have "visit line index p k (ds, \<tau>) =
      (if matches (UnsafePattern.pattern p) line then ds @ [detection p index line] else ds, \<tau>)"
    by (simp add: visit_def test_stateless detection_def)
  then show ?case using Cons by (simp add: detectionsOfLine_def)
qed

lemma outer_loop_stateless:
  "\<forall>p \<in> set ps. stateless (UnsafePattern.pattern p) \<Longrightarrow>
   forEachFrom k (\<lambda>line index. forEachFrom 0 (visit line index) ps) lines (ds, \<tau>) =
     (ds @ detectionsFrom k ps lines, \<tau>)"
proof (induction lines arbitrary: k ds)
  case Nil
  then show ?case by (simp add: detectionsFrom_def)
next
  case (Cons line lines)
  then show ?case by (simp add: inner_loop_stateless detectionsFrom_def)
qed

lemma outer_loop:
  "\<exists>new \<tau>'. forEachFrom k (\<lambda>line index. forEachFrom 0 (visit line index) ps) lines (ds, \<tau>)
       = (ds @ new, \<tau>') \<and>
     (\<forall>d \<in> set new. \<exists>i < length lines. \<exists>p \<in> set ps. d = detection p (k + i) (lines ! i)) \<and>
     length new \<le> length lines * length ps"
proof (induction lines arbitrary: k ds \<tau>)
  case Nil
  then show ?case by simp
next
  case (Cons line lines)
  from inner_loop [of 0 line k ps ds \<tau>]
  obtain new1 \<tau>1 where
    in1: "forEachFrom 0 (visit line k) ps (ds, \<tau>) = (ds @ new1, \<tau>1)"
    and new1: "set new1 \<subseteq> (\<lambda>p. detection p k line) ` set ps" "length new1 \<le> length ps"
    by blast
  from Cons.IH [of "Suc k" "ds @ new1" \<tau>1]
  obtain new2 \<tau>2 where
    in2: "forEachFrom (Suc k) (\<lambda>line index. forEachFrom 0 (visit line index) ps) lines (ds @ new1, \<tau>1)
            = ((ds @ new1) @ new2, \<tau>2)"
    and new2: "\<forall>d \<in> set new2. \<exists>i < length lines. \<exists>p \<in> set ps. d = detection p (Suc k + i) (lines ! i)"
      "length new2 \<le> length lines * length ps"
    by blast
  show ?case
  proof (intro exI conjI)
    show "forEachFrom k (\<lambda>line index. forEachFrom 0 (visit line index) ps) (line # lines) (ds, \<tau>)
            = (ds @ (new1 @ new2), \<tau>2)"
      by (simp add: in1 in2)
    show "\<forall>d \<in> set (new1 @ new2). \<exists>i < length (line # lines). \<exists>p \<in> set ps.
            d = detection p (k + i) ((line # lines) ! i)"
    proof
      fix d assume "d \<in> set (new1 @ new2)"
      then consider "d \<in> set new1" | "d \<in> set new2" by auto
      then show "\<exists>i < length (line # lines). \<exists>p \<in> set ps. d = detection p (k + i) ((line # lines) ! i)"
      proof cases
        case 1
        with new1(1) obtain p where "p \<in> set ps" "d = detection p k line" by auto
        then show ?thesis by (intro exI [of _ 0]) auto
      next
        case 2
        with new2(1) obtain i p where "i < length lines" "p \<in> set ps"
          "d = detection p (Suc k + i) (lines ! i)" by blast
        then show ?thesis by (intro exI [of _ "Suc i"]) auto
      qed
    qed
    show "length (new1 @ new2) \<le> length (line # lines) * length ps"
      using new1(2) new2(2) by simp
  qed
qed

text \<open>
  \<open>trim\<close> cuts a prefix and a suffix of white space and line terminators, and what is left
  neither starts nor ends with one.
\<close>

lemma rev_eq_append: "rev xs = a @ b \<Longrightarrow> xs = rev b @ rev a"
  by (metis rev_append rev_rev_ident)

lemma trim_decomposition:
  "\<exists>pre post. s = pre @ trim s @ post \<and>
     (\<forall>c \<in> set pre. isWhiteSpace c \<or> isLineTerminator c) \<and>
     (\<forall>c \<in> set post. isWhiteSpace c \<or> isLineTerminator c)"
proof -
  define ws where "ws = (\<lambda>c. isWhiteSpace c \<or> isLineTerminator c)"
  define t where "t = dropWhile ws s"
  have s: "s = takeWhile ws s @ t"
    by (simp add: t_def)
  have "rev t = takeWhile ws (rev t) @ dropWhile ws (rev t)"
    by (rule takeWhile_dropWhile_id [symmetric])
  then have "t = rev (dropWhile ws (rev t)) @ rev (takeWhile ws (rev t))"
    by (rule rev_eq_append)
  with s have "s = takeWhile ws s @ trim s @ rev (takeWhile ws (rev t))"
    by (simp add: trim_def ws_def [symmetric] t_def [symmetric])
  moreover have "\<forall>c \<in> set (takeWhile ws s). ws c"
    by (auto dest: set_takeWhileD)
  moreover have "\<forall>c \<in> set (rev (takeWhile ws (rev t))). ws c"
    by (auto dest: set_takeWhileD)
  ultimately show ?thesis
    unfolding ws_def by blast
qed

lemma trim_ends:
  "trim s \<noteq> [] \<Longrightarrow>
     \<not> (isWhiteSpace (hd (trim s)) \<or> isLineTerminator (hd (trim s))) \<and>
     \<not> (isWhiteSpace (last (trim s)) \<or> isLineTerminator (last (trim s)))"
proof -
  define ws where "ws = (\<lambda>c. isWhiteSpace c \<or> isLineTerminator c)"
  define t where "t = dropWhile ws s"
  define u where "u = dropWhile ws (rev t)"
  assume "trim s \<noteq> []"
  then have u: "u \<noteq> []" and trim: "trim s = rev u"
    by (simp_all add: trim_def ws_def [symmetric] t_def [symmetric] u_def [symmetric])
  have "\<not> ws (hd u)"
    using u unfolding u_def by (rule hd_dropWhile)
  then have last: "\<not> ws (last (trim s))"
    using u by (simp add: trim last_rev)
  have "set u \<subseteq> set t"
    unfolding u_def by (metis set_dropWhileD set_rev subsetI)
  from u have "t \<noteq> []" unfolding u_def by auto
  then have "\<not> ws (hd t)"
    unfolding t_def by (rule hd_dropWhile)
  moreover have "hd (rev u) = hd t"
  proof -
    have "rev t = takeWhile ws (rev t) @ u"
      unfolding u_def by (rule takeWhile_dropWhile_id [symmetric])
    then have "t = rev u @ rev (takeWhile ws (rev t))"
      by (rule rev_eq_append)
    with u show ?thesis by (metis hd_append2 rev_is_Nil_conv)
  qed
  ultimately have "\<not> ws (hd (trim s))" by (simp add: trim)
  with last show ?thesis unfolding ws_def by blast
qed

subsection \<open>Matchers return rests of the state\<close>

lemma RepeatMatcher_suffix:
  "(\<And>x y. y \<in> set (m x) \<Longrightarrow> suffix y x) \<Longrightarrow>
   y \<in> set (RepeatMatcher m mn mx greedy x) \<Longrightarrow> suffix y x"
proof (induction m mn mx greedy x arbitrary: y rule: RepeatMatcher.induct)
  case (1 m mn mx greedy x)
  note m = "1.prems"(1)
  note y = "1.prems"(2)
  show ?case
  proof (cases "mx = Some 0")
    case True
    with y show ?thesis by (simp add: RepeatMatcher.simps)
  next
    case False
    note mx = this
    show ?thesis
    proof (cases "mn \<noteq> 0")
      case True
      with mx y obtain z where z: "z \<in> set (m x)"
        "y \<in> set (RepeatMatcher m (mn - 1) (map_option (\<lambda>n. n - 1) mx) greedy z)"
        by (subst (asm) RepeatMatcher.simps) auto
      from "1.IH"(1) [OF mx True z(1) m z(2)] m [OF z(1)] show ?thesis
        using suffix_order.trans by blast
    next
      case False
      note mn = this
      from mx mn y consider "y = x"
        | z where "z \<in> set (m x)" "length z < length x"
            "y \<in> set (RepeatMatcher m 0 (map_option (\<lambda>n. n - 1) mx) greedy z)"
        by (subst (asm) RepeatMatcher.simps) (auto split: if_splits)
      then show ?thesis
      proof cases
        case 1
        then show ?thesis by simp
      next
        case 2
        show ?thesis
        proof (cases greedy)
          case True
          from "1.IH"(2) [OF mx mn True 2(1) 2(2) m 2(3)] m [OF 2(1)] show ?thesis
            using suffix_order.trans by blast
        next
          case False
          from "1.IH"(3) [OF mx mn False 2(1) 2(2) m 2(3)] m [OF 2(1)] show ?thesis
            using suffix_order.trans by blast
        qed
      qed
    qed
  qed
qed

lemma matcher_suffix: "y \<in> set (matcher r ic s x) \<Longrightarrow> suffix y x"
proof (induction r arbitrary: x y)
  case (Seq r1 r2)
  then obtain z where "z \<in> set (matcher r1 ic s x)" "y \<in> set (matcher r2 ic s z)" by auto
  with Seq.IH show ?case using suffix_order.trans by blast
next
  case (Quant r mn mx greedy)
  then show ?case using RepeatMatcher_suffix [of "\<lambda>y. matcher r ic s y"] by simp
qed (auto split: list.splits if_splits simp: suffix_Cons Let_def)

text \<open>So an iteration advances the end index exactly when its rest is shorter.\<close>

lemma matcher_advances:
  "y \<in> set (matcher r ic s x) \<Longrightarrow> (length y < length x) = (length y \<noteq> length x)"
  using matcher_suffix [of y r ic s x] suffix_length_le [of y x] by auto

subsection \<open>Ranges\<close>

lemma atomMatches_ClassRange:
  "atomMatches ic (ClassRange lo hi) ch \<longleftrightarrow>
     (\<exists>a. of_char lo \<le> a \<and> a \<le> of_char hi \<and> Canonicalize ic a = Canonicalize ic ch)"
proof
  assume "atomMatches ic (ClassRange lo hi) ch"
  then consider "of_char lo \<le> ch \<and> ch \<le> of_char hi"
    | "ic" "0x61 \<le> ch" "ch \<le> 0x7A" "of_char lo \<le> ch - 0x20" "ch - 0x20 \<le> of_char hi"
    | "ic" "0x41 \<le> ch" "ch \<le> 0x5A" "of_char lo \<le> ch + 0x20" "ch + 0x20 \<le> of_char hi"
    by auto
  then show "\<exists>a. of_char lo \<le> a \<and> a \<le> of_char hi \<and> Canonicalize ic a = Canonicalize ic ch"
  proof cases
    case 1
    then show ?thesis by blast
  next
    case 2
    then show ?thesis by (intro exI [of _ "ch - 0x20"]) (auto simp: Canonicalize_def)
  next
    case 3
    then show ?thesis by (intro exI [of _ "ch + 0x20"]) (auto simp: Canonicalize_def)
  qed
next
  assume "\<exists>a. of_char lo \<le> a \<and> a \<le> of_char hi \<and> Canonicalize ic a = Canonicalize ic ch"
  then obtain a where a: "of_char lo \<le> a" "a \<le> of_char hi" "Canonicalize ic a = Canonicalize ic ch"
    by blast
  then have "a = ch \<or> (ic \<and> 0x61 \<le> ch \<and> ch \<le> 0x7A \<and> a = ch - 0x20)
      \<or> (ic \<and> 0x41 \<le> ch \<and> ch \<le> 0x5A \<and> a = ch + 0x20)"
    by (auto simp: Canonicalize_def split: if_splits)
  with a(1,2) show "atomMatches ic (ClassRange lo hi) ch" by auto
qed

subsection \<open>The expressions of the catalog\<close>

lemmas catalog_defs =
  FUNCTION_PARAMETER_INJECTION_def TEMPLATE_STRING_INJECTION_def ARRAY_FILTER_INJECTION_def
  DIRECT_QUERY_VARIABLE_ASSIGNMENT_def BULK_OPERATION_INJECTION_def EVAL_USAGE_def
  INSECURE_AUTH_CHECKS_def WEAK_INDEXING_def DIRECT_JSON_PARSE_def
  TRANSACTION_WITHOUT_ERROR_HANDLING_def NOSQL_INJECTION_OBJECT_def
  NOSQL_INJECTION_REGEX_def NOSQL_INJECTION_STRING_def UNVALIDATED_USER_INPUT_def
  INSECURE_PROJECTION_def INSECURE_AGGREGATION_def UNCONSTRAINED_QUERY_def
  MASS_ASSIGNMENT_def INSECURE_INDEXING_def UNAUTHORIZED_SCHEMA_MODIFICATION_def
  INSECURE_OPERATOR_USAGE_def UNVALIDATED_ID_def PROJECTION_INJECTION_def
  UNCONTROLLED_LIMIT_def SORT_INJECTION_def OBJECT_SPREAD_INJECTION_def
  DYNAMIC_OPERATOR_ASSIGNMENT_def MONGOOSE_QUERY_EXEC_MISSING_def
  UNHANDLED_PROMISE_REJECTION_def UNESCAPED_REGEX_INPUT_def SENSITIVE_FIELD_EXPOSURE_def
  UNCONTROLLED_SKIP_def SECRETS_IN_QUERY_def DANGEROUS_PROJECTION_def
  UNVALIDATED_UPDATE_OPERATORS_def

lemmas catalog_pattern_defs =
  FUNCTION_PARAMETER_INJECTION_pattern_def TEMPLATE_STRING_INJECTION_pattern_def
  ARRAY_FILTER_INJECTION_pattern_def DIRECT_QUERY_VARIABLE_ASSIGNMENT_pattern_def
  BULK_OPERATION_INJECTION_pattern_def EVAL_USAGE_pattern_def
  INSECURE_AUTH_CHECKS_pattern_def WEAK_INDEXING_pattern_def DIRECT_JSON_PARSE_pattern_def
  TRANSACTION_WITHOUT_ERROR_HANDLING_pattern_def NOSQL_INJECTION_OBJECT_pattern_def
  NOSQL_INJECTION_REGEX_pattern_def NOSQL_INJECTION_STRING_pattern_def
  UNVALIDATED_USER_INPUT_pattern_def INSECURE_PROJECTION_pattern_def
  INSECURE_AGGREGATION_pattern_def UNCONSTRAINED_QUERY_pattern_def
  MASS_ASSIGNMENT_pattern_def INSECURE_INDEXING_pattern_def
  UNAUTHORIZED_SCHEMA_MODIFICATION_pattern_def INSECURE_OPERATOR_USAGE_pattern_def
  UNVALIDATED_ID_pattern_def PROJECTION_INJECTION_pattern_def UNCONTROLLED_LIMIT_pattern_def
  SORT_INJECTION_pattern_def OBJECT_SPREAD_INJECTION_pattern_def
  DYNAMIC_OPERATOR_ASSIGNMENT_pattern_def MONGOOSE_QUERY_EXEC_MISSING_pattern_def
  UNHANDLED_PROMISE_REJECTION_pattern_def UNESCAPED_REGEX_INPUT_pattern_def
  SENSITIVE_FIELD_EXPOSURE_pattern_def UNCONTROLLED_SKIP_pattern_def
  SECRETS_IN_QUERY_pattern_def DANGEROUS_PROJECTION_pattern_def
  UNVALIDATED_UPDATE_OPERATORS_pattern_def

lemma catalog_patterns:
  "UnsafePattern.pattern FUNCTION_PARAMETER_INJECTION = FUNCTION_PARAMETER_INJECTION_pattern"
  "UnsafePattern.pattern TEMPLATE_STRING_INJECTION = TEMPLATE_STRING_INJECTION_pattern"
  "UnsafePattern.pattern ARRAY_FILTER_INJECTION = ARRAY_FILTER_INJECTION_pattern"
  "UnsafePattern.pattern DIRECT_QUERY_VARIABLE_ASSIGNMENT = DIRECT_QUERY_VARIABLE_ASSIGNMENT_pattern"
  "UnsafePattern.pattern BULK_OPERATION_INJECTION = BULK_OPERATION_INJECTION_pattern"
  "UnsafePattern.pattern EVAL_USAGE = EVAL_USAGE_pattern"
  "UnsafePattern.pattern INSECURE_AUTH_CHECKS = INSECURE_AUTH_CHECKS_pattern"
  "UnsafePattern.pattern WEAK_INDEXING = WEAK_INDEXING_pattern"
  "UnsafePattern.pattern DIRECT_JSON_PARSE = DIRECT_JSON_PARSE_pattern"
  "UnsafePattern.pattern TRANSACTION_WITHOUT_ERROR_HANDLING = TRANSACTION_WITHOUT_ERROR_HANDLING_pattern"
  "UnsafePattern.pattern NOSQL_INJECTION_OBJECT = NOSQL_INJECTION_OBJECT_pattern"
  "UnsafePattern.pattern NOSQL_INJECTION_REGEX = NOSQL_INJECTION_REGEX_pattern"
  "UnsafePattern.pattern NOSQL_INJECTION_STRING = NOSQL_INJECTION_STRING_pattern"
  "UnsafePattern.pattern UNVALIDATED_USER_INPUT = UNVALIDATED_USER_INPUT_pattern"
  "UnsafePattern.pattern INSECURE_PROJECTION = INSECURE_PROJECTION_pattern"
  "UnsafePattern.pattern INSECURE_AGGREGATION = INSECURE_AGGREGATION_pattern"
  "UnsafePattern.pattern UNCONSTRAINED_QUERY = UNCONSTRAINED_QUERY_pattern"
  "UnsafePattern.pattern MASS_ASSIGNMENT = MASS_ASSIGNMENT_pattern"
  "UnsafePattern.pattern INSECURE_INDEXING = INSECURE_INDEXING_pattern"
  "UnsafePattern.pattern UNAUTHORIZED_SCHEMA_MODIFICATION = UNAUTHORIZED_SCHEMA_MODIFICATION_pattern"
  "UnsafePattern.pattern INSECURE_OPERATOR_USAGE = INSECURE_OPERATOR_USAGE_pattern"
  "UnsafePattern.pattern UNVALIDATED_ID = UNVALIDATED_ID_pattern"
  "UnsafePattern.pattern PROJECTION_INJECTION = PROJECTION_INJECTION_pattern"
  "UnsafePattern.pattern UNCONTROLLED_LIMIT = UNCONTROLLED_LIMIT_pattern"
  "UnsafePattern.pattern SORT_INJECTION = SORT_INJECTION_pattern"
  "UnsafePattern.pattern OBJECT_SPREAD_INJECTION = OBJECT_SPREAD_INJECTION_pattern"
  "UnsafePattern.pattern DYNAMIC_OPERATOR_ASSIGNMENT = DYNAMIC_OPERATOR_ASSIGNMENT_pattern"
  "UnsafePattern.pattern MONGOOSE_QUERY_EXEC_MISSING = MONGOOSE_QUERY_EXEC_MISSING_pattern"
  "UnsafePattern.pattern UNHANDLED_PROMISE_REJECTION = UNHANDLED_PROMISE_REJECTION_pattern"
  "UnsafePattern.pattern UNESCAPED_REGEX_INPUT = UNESCAPED_REGEX_INPUT_pattern"
  "UnsafePattern.pattern SENSITIVE_FIELD_EXPOSURE = SENSITIVE_FIELD_EXPOSURE_pattern"
  "UnsafePattern.pattern UNCONTROLLED_SKIP = UNCONTROLLED_SKIP_pattern"
  "UnsafePattern.pattern SECRETS_IN_QUERY = SECRETS_IN_QUERY_pattern"
  "UnsafePattern.pattern DANGEROUS_PROJECTION = DANGEROUS_PROJECTION_pattern"
  "UnsafePattern.pattern UNVALIDATED_UPDATE_OPERATORS = UNVALIDATED_UPDATE_OPERATORS_pattern"
  by (simp_all add: catalog_defs)

lemma catalog_stateless: "p \<in> set unsafePatterns \<Longrightarrow> stateless (UnsafePattern.pattern p)"
  by (auto simp: unsafePatterns_def catalog_patterns catalog_pattern_defs stateless_def RegExp_i_def)

lemma catalog_distinct: "distinct unsafePatterns"
proof -
  have "distinct (map (\<lambda>p. addr (UnsafePattern.pattern p)) unsafePatterns)"
    by (simp add: unsafePatterns_def catalog_patterns catalog_pattern_defs RegExp_i_def)
  then show ?thesis by (simp add: distinct_map)
qed

lemma catalog_length: "length unsafePatterns = 35"
  by (simp add: unsafePatterns_def)

subsection \<open>Reports without global and sticky expressions\<close>

lemma scan_stateless:
  assumes "\<forall>p \<in> set ps. stateless (UnsafePattern.pattern p)"
  shows "scanForUnsafePatterns content ps None \<sigma> =
           (detectionsFrom 0 ps (str_split content newline), \<sigma>)"
  using outer_loop_stateless [OF assms, of 0 "str_split content newline" "[]" \<sigma>]
  by (simp add: scanForUnsafePatterns_visit)

lemma scan_excluded_or_not:
  "scanForUnsafePatterns content ps filePath \<sigma> = ([], \<sigma>) \<or>
   scanForUnsafePatterns content ps filePath \<sigma> = scanForUnsafePatterns content ps None \<sigma>"
  by (simp add: scanForUnsafePatterns_visit)

lemma detectionsFrom_Cons:
  "detectionsFrom k ps (line # lines) = detectionsOfLine ps k line @ detectionsFrom (Suc k) ps lines"
  by (simp add: detectionsFrom_def)

lemma detectionsFrom_Nil: "detectionsFrom k ps [] = []"
  by (simp add: detectionsFrom_def)

lemma detectionsOfLine_lineNumber:
  "d \<in> set (detectionsOfLine ps k line) \<Longrightarrow> lineNumber d = k + 1"
  by (auto simp: detectionsOfLine_def detection_def)

lemma detectionsFrom_lineNumber:
  "d \<in> set (detectionsFrom k ps lines) \<Longrightarrow> k < lineNumber d \<and> lineNumber d \<le> k + length lines"
proof (induction lines arbitrary: k)
  case Nil
  then show ?case by (simp add: detectionsFrom_Nil)
next
  case (Cons line lines)
  then show ?case
    by (fastforce simp: detectionsFrom_Cons dest: detectionsOfLine_lineNumber)
qed

lemma indexOf_sorted: "distinct ps \<Longrightarrow> sorted_wrt (\<lambda>a b. indexOf ps a < indexOf ps b) ps"
proof (induction ps)
  case Nil
  then show ?case by simp
next
  case (Cons p ps)
  then have "sorted_wrt (\<lambda>a b. indexOf ps a < indexOf ps b) ps" by simp
  then have "sorted_wrt (\<lambda>a b. indexOf (p # ps) a < indexOf (p # ps) b) ps"
    using Cons.prems by (auto intro!: sorted_wrt_mono_rel [where P = "\<lambda>a b. indexOf ps a < indexOf ps b"])
  moreover have "\<forall>x \<in> set ps. indexOf (p # ps) p < indexOf (p # ps) x"
    using Cons.prems by auto
  ultimately show ?case by simp
qed

lemma detectionsOfLine_sorted:
  "distinct ps \<Longrightarrow> sorted_wrt (precedes ps) (detectionsOfLine ps k line)"
proof -
  assume "distinct ps"
  then have "sorted_wrt (\<lambda>a b. indexOf ps a < indexOf ps b)
      (filter (\<lambda>p. matches (UnsafePattern.pattern p) line) ps)"
    by (intro sorted_wrt_filter indexOf_sorted)
  then show ?thesis
    by (simp add: detectionsOfLine_def sorted_wrt_map precedes_def detection_def)
qed

lemma detectionsFrom_sorted:
  "distinct ps \<Longrightarrow> sorted_wrt (precedes ps) (detectionsFrom k ps lines)"
proof (induction lines arbitrary: k)
  case Nil
  then show ?case by (simp add: detectionsFrom_Nil)
next
  case (Cons line lines)
  have "precedes ps a b"
    if "a \<in> set (detectionsOfLine ps k line)" "b \<in> set (detectionsFrom (Suc k) ps lines)" for a b
    using detectionsOfLine_lineNumber [OF that(1)] detectionsFrom_lineNumber [OF that(2)]
    by (simp add: precedes_def)
  with Cons show ?case
    by (simp add: detectionsFrom_Cons sorted_wrt_append detectionsOfLine_sorted)
qed

lemma count_distinct:
  "distinct ps \<Longrightarrow> length (filter (\<lambda>q. q = p \<and> Q q) ps) = (if p \<in> set ps \<and> Q p then 1 else 0)"
  by (induction ps) auto

lemma detectionsOfLine_count:
  assumes "distinct ps"
  shows "length (filter (\<lambda>d. lineNumber d = n \<and> Detection.pattern d = p) (detectionsOfLine ps k line))
     = (if n = k + 1 \<and> p \<in> set ps \<and> matches (UnsafePattern.pattern p) line then 1 else 0)"
proof -
  have "filter (\<lambda>d. lineNumber d = n \<and> Detection.pattern d = p) (detectionsOfLine ps k line)
      = map (\<lambda>p. detection p k line)
          (filter (\<lambda>q. q = p \<and> (n = k + 1 \<and> matches (UnsafePattern.pattern q) line)) ps)"
    by (auto simp: detectionsOfLine_def detection_def filter_map o_def intro!: arg_cong [where f = "map _"] filter_cong)
  then show ?thesis using count_distinct [OF assms, of p] by simp
qed

lemma detectionsFrom_count:
  assumes "distinct ps"
  shows "length (filter (\<lambda>d. lineNumber d = n \<and> Detection.pattern d = p) (detectionsFrom k ps lines))
     = (if k < n \<and> n \<le> k + length lines \<and> p \<in> set ps \<and>
           matches (UnsafePattern.pattern p) (lines ! (n - k - 1)) then 1 else 0)"
proof (induction lines arbitrary: k)
  case Nil
  then show ?case by (simp add: detectionsFrom_Nil)
next
  case (Cons line lines)
  show ?case
  proof (cases "n = k + 1")
    case True
    have "filter (\<lambda>d. lineNumber d = n \<and> Detection.pattern d = p) (detectionsFrom (Suc k) ps lines) = []"
      using True detectionsFrom_lineNumber [of _ "Suc k" ps lines] by (fastforce simp: filter_empty_conv)
    then show ?thesis using True
      by (simp add: detectionsFrom_Cons detectionsOfLine_count [OF assms])
  next
    case False
    then have "(lines ! (n - Suc k - 1)) = ((line # lines) ! (n - k - 1))" if "k < n"
      using that by (cases "n - k - 1") auto
    then show ?thesis using False Cons.IH [of "Suc k"]
      by (auto simp: detectionsFrom_Cons detectionsOfLine_count [OF assms])
  qed
qed

subsection \<open>Evaluating the expressions\<close>

lemmas regex_eval =
  matches_def search_def RegExp_i_def seq_def lit_def searchFrom.simps RepeatMatcher.simps
  Canonicalize_def isWhiteSpace_def isLineTerminator_def isWordChar_def IsWordCharAt_def

lemma split_from_no_separator:
  "sep \<notin> set s \<Longrightarrow> split_from sep piece s = [rev piece @ s]"
  by (induction s arbitrary: piece) auto

lemma str_split_one_line: "newline \<notin> set s \<Longrightarrow> str_split s newline = [s]"
  by (simp add: str_split_def split_from_no_separator)

lemma scenario_where_units:
  "scenario_where =
      [100, 98, 46, 117, 115, 101, 114, 115, 46, 102, 105, 110, 100, 40, 123, 32, 36, 119,
      104, 101, 114, 101, 58, 32, 34, 116, 104, 105, 115, 46, 117, 115, 101, 114, 110, 97,
      109, 101, 32, 61, 61, 61, 32, 39, 34, 32, 43, 32, 117, 115, 101, 114, 110, 97, 109, 101,
      32, 43, 32, 34, 39, 34, 32, 125, 41, 59]"
  by (simp add: scenario_where_def js_def)

lemma scenario_safe_units:
  "scenario_safe =
      [100, 98, 46, 117, 115, 101, 114, 115, 46, 102, 105, 110, 100, 40, 123, 32, 97, 99, 116,
      105, 118, 101, 58, 32, 116, 114, 117, 101, 44, 32, 114, 111, 108, 101, 58, 32, 34, 117,
      115, 101, 114, 34, 32, 125, 41, 59]"
  by (simp add: scenario_safe_def js_def)

lemma scenario_where_one_line: "str_split scenario_where newline = [scenario_where]"
  by (rule str_split_one_line) (simp add: scenario_where_units newline_def)

lemma scenario_safe_one_line: "str_split scenario_safe newline = [scenario_safe]"
  by (rule str_split_one_line) (simp add: scenario_safe_units newline_def)

lemma where_NOSQL_INJECTION_OBJECT:
  "matches (UnsafePattern.pattern NOSQL_INJECTION_OBJECT) scenario_where"
  unfolding catalog_patterns scenario_where_units by (simp add: NOSQL_INJECTION_OBJECT_pattern_def regex_eval)

text \<open>The rules on the line of the safe scenario, one by one.\<close>

lemma safe_FUNCTION_PARAMETER_INJECTION:
  "matches (UnsafePattern.pattern FUNCTION_PARAMETER_INJECTION) scenario_safe"
  unfolding catalog_patterns scenario_safe_units by (simp add: FUNCTION_PARAMETER_INJECTION_pattern_def regex_eval)

lemma safe_TEMPLATE_STRING_INJECTION:
  "\<not> matches (UnsafePattern.pattern TEMPLATE_STRING_INJECTION) scenario_safe"
  unfolding catalog_patterns scenario_safe_units by (simp add: TEMPLATE_STRING_INJECTION_pattern_def regex_eval)

lemma safe_ARRAY_FILTER_INJECTION:
  "\<not> matches (UnsafePattern.pattern ARRAY_FILTER_INJECTION) scenario_safe"
  unfolding catalog_patterns scenario_safe_units by (simp add: ARRAY_FILTER_INJECTION_pattern_def regex_eval)

lemma safe_DIRECT_QUERY_VARIABLE_ASSIGNMENT:
  "\<not> matches (UnsafePattern.pattern DIRECT_QUERY_VARIABLE_ASSIGNMENT) scenario_safe"
  unfolding catalog_patterns scenario_safe_units by (simp add: DIRECT_QUERY_VARIABLE_ASSIGNMENT_pattern_def regex_eval)

lemma safe_BULK_OPERATION_INJECTION:
  "\<not> matches (UnsafePattern.pattern BULK_OPERATION_INJECTION) scenario_safe"
  unfolding catalog_patterns scenario_safe_units by (simp add: BULK_OPERATION_INJECTION_pattern_def regex_eval)

lemma safe_EVAL_USAGE:
  "\<not> matches (UnsafePattern.pattern EVAL_USAGE) scenario_safe"
  unfolding catalog_patterns scenario_safe_units by (simp add: EVAL_USAGE_pattern_def regex_eval)

lemma safe_INSECURE_AUTH_CHECKS:
  "\<not> matches (UnsafePattern.pattern INSECURE_AUTH_CHECKS) scenario_safe"
  unfolding catalog_patterns scenario_safe_units by (simp add: INSECURE_AUTH_CHECKS_pattern_def regex_eval)

lemma safe_WEAK_INDEXING:
  "\<not> matches (UnsafePattern.pattern WEAK_INDEXING) scenario_safe"
  unfolding catalog_patterns scenario_safe_units by (simp add: WEAK_INDEXING_pattern_def regex_eval)

lemma safe_DIRECT_JSON_PARSE:
  "\<not> matches (UnsafePattern.pattern DIRECT_JSON_PARSE) scenario_safe"
  unfolding catalog_patterns scenario_safe_units by (simp add: DIRECT_JSON_PARSE_pattern_def regex_eval)

lemma safe_TRANSACTION_WITHOUT_ERROR_HANDLING:
  "\<not> matches (UnsafePattern.pattern TRANSACTION_WITHOUT_ERROR_HANDLING) scenario_safe"
  unfolding catalog_patterns scenario_safe_units by (simp add: TRANSACTION_WITHOUT_ERROR_HANDLING_pattern_def regex_eval)

lemma safe_NOSQL_INJECTION_OBJECT:
  "\<not> matches (UnsafePattern.pattern NOSQL_INJECTION_OBJECT) scenario_safe"
  unfolding catalog_patterns scenario_safe_units by (simp add: NOSQL_INJECTION_OBJECT_pattern_def regex_eval)

lemma safe_NOSQL_INJECTION_REGEX:
  "\<not> matches (UnsafePattern.pattern NOSQL_INJECTION_REGEX) scenario_safe"
  unfolding catalog_patterns scenario_safe_units by (simp add: NOSQL_INJECTION_REGEX_pattern_def regex_eval)

lemma safe_NOSQL_INJECTION_STRING:
  "\<not> matches (UnsafePattern.pattern NOSQL_INJECTION_STRING) scenario_safe"
  unfolding catalog_patterns scenario_safe_units by (simp add: NOSQL_INJECTION_STRING_pattern_def regex_eval)

lemma safe_UNVALIDATED_USER_INPUT:
  "\<not> matches (UnsafePattern.pattern UNVALIDATED_USER_INPUT) scenario_safe"
  unfolding catalog_patterns scenario_safe_units by (simp add: UNVALIDATED_USER_INPUT_pattern_def regex_eval)

lemma safe_INSECURE_PROJECTION:
  "\<not> matches (UnsafePattern.pattern INSECURE_PROJECTION) scenario_safe"
  unfolding catalog_patterns scenario_safe_units by (simp add: INSECURE_PROJECTION_pattern_def regex_eval)

lemma safe_INSECURE_AGGREGATION:
  "\<not> matches (UnsafePattern.pattern INSECURE_AGGREGATION) scenario_safe"
  unfolding catalog_patterns scenario_safe_units by (simp add: INSECURE_AGGREGATION_pattern_def regex_eval)

lemma safe_UNCONSTRAINED_QUERY:
  "\<not> matches (UnsafePattern.pattern UNCONSTRAINED_QUERY) scenario_safe"
  unfolding catalog_patterns scenario_safe_units by (simp add: UNCONSTRAINED_QUERY_pattern_def regex_eval)

lemma safe_MASS_ASSIGNMENT:
  "\<not> matches (UnsafePattern.pattern MASS_ASSIGNMENT) scenario_safe"
  unfolding catalog_patterns scenario_safe_units by (simp add: MASS_ASSIGNMENT_pattern_def regex_eval)

lemma safe_INSECURE_INDEXING:
  "\<not> matches (UnsafePattern.pattern INSECURE_INDEXING) scenario_safe"
  unfolding catalog_patterns scenario_safe_units by (simp add: INSECURE_INDEXING_pattern_def regex_eval)

lemma safe_UNAUTHORIZED_SCHEMA_MODIFICATION:
  "\<not> matches (UnsafePattern.pattern UNAUTHORIZED_SCHEMA_MODIFICATION) scenario_safe"
  unfolding catalog_patterns scenario_safe_units by (simp add: UNAUTHORIZED_SCHEMA_MODIFICATION_pattern_def regex_eval)

lemma safe_INSECURE_OPERATOR_USAGE:
  "\<not> matches (UnsafePattern.pattern INSECURE_OPERATOR_USAGE) scenario_safe"
  unfolding catalog_patterns scenario_safe_units by (simp add: INSECURE_OPERATOR_USAGE_pattern_def regex_eval)

lemma safe_UNVALIDATED_ID:
  "\<not> matches (UnsafePattern.pattern UNVALIDATED_ID) scenario_safe"
  unfolding catalog_patterns scenario_safe_units by (simp add: UNVALIDATED_ID_pattern_def regex_eval)

lemma safe_PROJECTION_INJECTION:
  "\<not> matches (UnsafePattern.pattern PROJECTION_INJECTION) scenario_safe"
  unfolding catalog_patterns scenario_safe_units by (simp add: PROJECTION_INJECTION_pattern_def regex_eval)

lemma safe_UNCONTROLLED_LIMIT:
  "\<not> matches (UnsafePattern.pattern UNCONTROLLED_LIMIT) scenario_safe"
  unfolding catalog_patterns scenario_safe_units by (simp add: UNCONTROLLED_LIMIT_pattern_def regex_eval)

lemma safe_SORT_INJECTION:
  "\<not> matches (UnsafePattern.pattern SORT_INJECTION) scenario_safe"
  unfolding catalog_patterns scenario_safe_units by (simp add: SORT_INJECTION_pattern_def regex_eval)

lemma safe_OBJECT_SPREAD_INJECTION:
  "\<not> matches (UnsafePattern.pattern OBJECT_SPREAD_INJECTION) scenario_safe"
  unfolding catalog_patterns scenario_safe_units by (simp add: OBJECT_SPREAD_INJECTION_pattern_def regex_eval)

lemma safe_DYNAMIC_OPERATOR_ASSIGNMENT:
  "\<not> matches (UnsafePattern.pattern DYNAMIC_OPERATOR_ASSIGNMENT) scenario_safe"
  unfolding catalog_patterns scenario_safe_units by (simp add: DYNAMIC_OPERATOR_ASSIGNMENT_pattern_def regex_eval)

lemma safe_MONGOOSE_QUERY_EXEC_MISSING:
  "matches (UnsafePattern.pattern MONGOOSE_QUERY_EXEC_MISSING) scenario_safe"
  unfolding catalog_patterns scenario_safe_units by (simp add: MONGOOSE_QUERY_EXEC_MISSING_pattern_def regex_eval)

lemma safe_UNHANDLED_PROMISE_REJECTION:
  "\<not> matches (UnsafePattern.pattern UNHANDLED_PROMISE_REJECTION) scenario_safe"
  unfolding catalog_patterns scenario_safe_units by (simp add: UNHANDLED_PROMISE_REJECTION_pattern_def regex_eval)

lemma safe_UNESCAPED_REGEX_INPUT:
  "\<not> matches (UnsafePattern.pattern UNESCAPED_REGEX_INPUT) scenario_safe"
  unfolding catalog_patterns scenario_safe_units by (simp add: UNESCAPED_REGEX_INPUT_pattern_def regex_eval)

lemma safe_SENSITIVE_FIELD_EXPOSURE:
  "\<not> matches (UnsafePattern.pattern SENSITIVE_FIELD_EXPOSURE) scenario_safe"
  unfolding catalog_patterns scenario_safe_units by (simp add: SENSITIVE_FIELD_EXPOSURE_pattern_def regex_eval)

lemma safe_UNCONTROLLED_SKIP:
  "\<not> matches (UnsafePattern.pattern UNCONTROLLED_SKIP) scenario_safe"
  unfolding catalog_patterns scenario_safe_units by (simp add: UNCONTROLLED_SKIP_pattern_def regex_eval)

lemma safe_SECRETS_IN_QUERY:
  "\<not> matches (UnsafePattern.pattern SECRETS_IN_QUERY) scenario_safe"
  unfolding catalog_patterns scenario_safe_units by (simp add: SECRETS_IN_QUERY_pattern_def regex_eval)

lemma safe_DANGEROUS_PROJECTION:
  "\<not> matches (UnsafePattern.pattern DANGEROUS_PROJECTION) scenario_safe"
  unfolding catalog_patterns scenario_safe_units by (simp add: DANGEROUS_PROJECTION_pattern_def regex_eval)

lemma safe_UNVALIDATED_UPDATE_OPERATORS:
  "\<not> matches (UnsafePattern.pattern UNVALIDATED_UPDATE_OPERATORS) scenario_safe"
  unfolding catalog_patterns scenario_safe_units by (simp add: UNVALIDATED_UPDATE_OPERATORS_pattern_def regex_eval)

lemmas safe_line_rules =
  safe_FUNCTION_PARAMETER_INJECTION safe_TEMPLATE_STRING_INJECTION
  safe_ARRAY_FILTER_INJECTION safe_DIRECT_QUERY_VARIABLE_ASSIGNMENT
  safe_BULK_OPERATION_INJECTION safe_EVAL_USAGE safe_INSECURE_AUTH_CHECKS safe_WEAK_INDEXING
  safe_DIRECT_JSON_PARSE safe_TRANSACTION_WITHOUT_ERROR_HANDLING safe_NOSQL_INJECTION_OBJECT
  safe_NOSQL_INJECTION_REGEX safe_NOSQL_INJECTION_STRING safe_UNVALIDATED_USER_INPUT
  safe_INSECURE_PROJECTION safe_INSECURE_AGGREGATION safe_UNCONSTRAINED_QUERY
  safe_MASS_ASSIGNMENT safe_INSECURE_INDEXING safe_UNAUTHORIZED_SCHEMA_MODIFICATION
  safe_INSECURE_OPERATOR_USAGE safe_UNVALIDATED_ID safe_PROJECTION_INJECTION
  safe_UNCONTROLLED_LIMIT safe_SORT_INJECTION safe_OBJECT_SPREAD_INJECTION
  safe_DYNAMIC_OPERATOR_ASSIGNMENT safe_MONGOOSE_QUERY_EXEC_MISSING
  safe_UNHANDLED_PROMISE_REJECTION safe_UNESCAPED_REGEX_INPUT safe_SENSITIVE_FIELD_EXPOSURE
  safe_UNCONTROLLED_SKIP safe_SECRETS_IN_QUERY safe_DANGEROUS_PROJECTION
  safe_UNVALIDATED_UPDATE_OPERATORS

lemma safe_line_report:
  "detectionsOfLine unsafePatterns 0 scenario_safe =
     [detection FUNCTION_PARAMETER_INJECTION 0 scenario_safe,
      detection MONGOOSE_QUERY_EXEC_MISSING 0 scenario_safe]"
  by (simp add: detectionsOfLine_def unsafePatterns_def safe_line_rules)

text \<open>No expression of the catalog matches the empty line.\<close>

lemma catalog_empty_line: "p \<in> set unsafePatterns \<Longrightarrow> \<not> matches (UnsafePattern.pattern p) []"
  unfolding unsafePatterns_def by (auto simp: catalog_patterns catalog_pattern_defs regex_eval)

subsection \<open>Reports of one line\<close>

lemma one_line_report:
  assumes "\<forall>p \<in> set ps. stateless (UnsafePattern.pattern p)"
    and "str_split content newline = [content]"
  shows "scanForUnsafePatterns content ps None \<sigma> = (detectionsOfLine ps 0 content, \<sigma>)"
  by (simp add: scan_stateless [OF assms(1)] assms(2) detectionsFrom_def)

lemma eval_line_units: "js ''db.eval(x)'' = [100, 98, 46, 101, 118, 97, 108, 40, 120, 41]"
  by (simp add: js_def)

lemma eval_line_one_line: "str_split (js ''db.eval(x)'') newline = [js ''db.eval(x)'']"
  by (rule str_split_one_line) (simp add: eval_line_units newline_def)

lemma eval_line_EVAL_USAGE: "matches (UnsafePattern.pattern EVAL_USAGE) (js ''db.eval(x)'')"
  unfolding catalog_patterns eval_line_units by (simp add: EVAL_USAGE_pattern_def regex_eval)

lemma eval_line_reported:
  "detection EVAL_USAGE 0 (js ''db.eval(x)'')
     \<in> set (fst (scanForUnsafePatterns (js ''db.eval(x)'') unsafePatterns None \<sigma>))"
proof -
  have "EVAL_USAGE \<in> set unsafePatterns" by (simp add: unsafePatterns_def)
  then have "detection EVAL_USAGE 0 (js ''db.eval(x)'')
      \<in> set (detectionsOfLine unsafePatterns 0 (js ''db.eval(x)''))"
    using eval_line_EVAL_USAGE by (auto simp: detectionsOfLine_def)
  then show ?thesis
    by (simp add: one_line_report [OF _ eval_line_one_line] catalog_stateless)
qed

text \<open>A line that no rule matches, at any store, adds nothing to the report.\<close>

lemma inner_loop_no_match:
  "\<forall>p \<in> set ps. \<forall>\<tau>. \<not> fst (test (UnsafePattern.pattern p) line \<tau>) \<Longrightarrow>
   fst (forEachFrom k (visit line index) ps (ds, \<tau>)) = ds"
proof (induction ps arbitrary: k \<tau>)
  case Nil
  then show ?case by simp
next
  case (Cons p ps)
  obtain m \<tau>1 where t: "test (UnsafePattern.pattern p) line \<tau> = (m, \<tau>1)" by force
  with Cons.prems have "\<not> m" by (metis fst_conv list.set_intros(1))
  with t have "visit line index p k (ds, \<tau>) = (ds, \<tau>1)" by (simp add: visit_def)
  with Cons show ?case by simp
qed

lemma str_split_empty: "str_split [] sep = [[]]"
  by (simp add: str_split_def)

subsection \<open>The identifiers of the catalog\<close>

lemma catalog_ids:
  "map id' unsafePatterns = map js
     [''FUNCTION_PARAMETER_INJECTION'', ''TEMPLATE_STRING_INJECTION'',
      ''ARRAY_FILTER_INJECTION'', ''DIRECT_QUERY_VARIABLE_ASSIGNMENT'',
      ''BULK_OPERATION_INJECTION'', ''EVAL_USAGE'', ''INSECURE_AUTH_CHECKS'',
      ''WEAK_INDEXING'', ''DIRECT_JSON_PARSE'', ''TRANSACTION_WITHOUT_ERROR_HANDLING'',
      ''NOSQL_INJECTION_OBJECT'', ''NOSQL_INJECTION_REGEX'', ''NOSQL_INJECTION_STRING'',
      ''UNVALIDATED_USER_INPUT'', ''INSECURE_PROJECTION'', ''INSECURE_AGGREGATION'',
      ''UNCONSTRAINED_QUERY'', ''MASS_ASSIGNMENT'', ''INSECURE_INDEXING'',
      ''UNAUTHORIZED_SCHEMA_MODIFICATION'', ''INSECURE_OPERATOR_USAGE'', ''UNVALIDATED_ID'',
      ''PROJECTION_INJECTION'', ''UNCONTROLLED_LIMIT'', ''SORT_INJECTION'',
      ''OBJECT_SPREAD_INJECTION'', ''DYNAMIC_OPERATOR_ASSIGNMENT'',
      ''MONGOOSE_QUERY_EXEC_MISSING'', ''UNHANDLED_PROMISE_REJECTION'',
      ''UNESCAPED_REGEX_INPUT'', ''SENSITIVE_FIELD_EXPOSURE'', ''UNCONTROLLED_SKIP'',
      ''SECRETS_IN_QUERY'', ''DANGEROUS_PROJECTION'', ''UNVALIDATED_UPDATE_OPERATORS'']"
  unfolding unsafePatterns_def
  by (simp add: catalog_defs)

lemma js_eq_iff: "js a = js b \<longleftrightarrow> a = b"
proof -
  have "inj (of_char :: char \<Rightarrow> nat)"
    by (rule injI) simp
  then show ?thesis
    unfolding js_def by (rule inj_map_eq_map)
qed

lemma catalog_ids_distinct: "distinct (map id' unsafePatterns)"
  unfolding catalog_ids by (simp add: js_eq_iff)

subsection \<open>A global expression\<close>

text \<open>
  The store matters for an array with a global expression: with \<^verbatim>\<open>/a/gi\<close>, the first
  scan of the text \<^verbatim>\<open>a\<close> reports the rule and leaves \<^verbatim>\<open>lastIndex\<close> at 1, and the
  second scan, which starts there, reports nothing.
\<close>

lemma global_expression_two_scans:
  "(let rule = EVAL_USAGE\<lparr>UnsafePattern.pattern := (RegExp_i 5 (Char CHR ''a''))\<lparr>global := True\<rparr>\<rparr>;
        first = scanForUnsafePatterns (js ''a'') [rule] None (\<lambda>_. 0);
        second = scanForUnsafePatterns (js ''a'') [rule] None (snd first)
    in fst first = [detection rule 0 (js ''a'')] \<and> snd first 5 = 1 \<and>
       fst second = [] \<and> snd second 5 = 0)"
  by (simp add: scanForUnsafePatterns_visit str_split_def visit_def test_def
      RegExpBuiltinExec_def search_def searchFrom.simps RegExp_i_def Canonicalize_def
      detection_def js_def newline_def Let_def)

subsection \<open>The safe example\<close>

text \<open>
  The line of the safe scenario is the text that the catalog gives as the safe alternative
  of \<^verbatim>\<open>UNCONSTRAINED_QUERY\<close>. The scan of the line with the catalog reports two rules.
\<close>

lemma safe_example_of_UNCONSTRAINED_QUERY: "safeExample UNCONSTRAINED_QUERY = scenario_safe"
  by (simp add: UNCONSTRAINED_QUERY_def scenario_safe_def)

lemma safe_line_scan:
  "scanForUnsafePatterns scenario_safe unsafePatterns None \<sigma> =
     ([detection FUNCTION_PARAMETER_INJECTION 0 scenario_safe,
       detection MONGOOSE_QUERY_EXEC_MISSING 0 scenario_safe], \<sigma>)"
  by (simp add: one_line_report [OF _ scenario_safe_one_line] catalog_stateless safe_line_report)

text \<open>
  The expression of \<^verbatim>\<open>FUNCTION_PARAMETER_INJECTION\<close> does not match the text that the
  catalog gives as the example of the rule,
  \<^verbatim>\<open>const getUser = (username) => db.users.find({ username });\<close>
\<close>

lemma FUNCTION_PARAMETER_INJECTION_example_units:
  "example FUNCTION_PARAMETER_INJECTION =
      [99, 111, 110, 115, 116, 32, 103, 101, 116, 85, 115, 101, 114, 32, 61, 32, 40, 117, 115,
      101, 114, 110, 97, 109, 101, 41, 32, 61, 62, 32, 100, 98, 46, 117, 115, 101, 114, 115,
      46, 102, 105, 110, 100, 40, 123, 32, 117, 115, 101, 114, 110, 97, 109, 101, 32, 125, 41,
      59]"
  by (simp add: FUNCTION_PARAMETER_INJECTION_def js_def)

lemma FUNCTION_PARAMETER_INJECTION_misses_example:
  "\<not> matches (UnsafePattern.pattern FUNCTION_PARAMETER_INJECTION)
       (example FUNCTION_PARAMETER_INJECTION)"
  unfolding catalog_patterns FUNCTION_PARAMETER_INJECTION_example_units
  by (simp add: FUNCTION_PARAMETER_INJECTION_pattern_def regex_eval)

section \<open>The properties of the specification\<close>

subsection \<open>C1: the order of the report\<close>

text \<open>
  \<^bold>\<open>C1.\<close> For every text and the catalog, the detections that the scan returns are in
  strict order: of two detections, the earlier one has the smaller line number, or the same
  line number and a rule that stands earlier in the catalog. When no file path is given,
  each pair of a line and a rule of the catalog that matches the line is reported exactly
  once, and no other pair is reported.
\<close>

theorem scan_ordered_exactly_once:
  "sorted_wrt (precedes unsafePatterns)
     (fst (scanForUnsafePatterns content unsafePatterns filePath \<sigma>)) \<and>
   length (filter (\<lambda>d. lineNumber d = n \<and> Detection.pattern d = p)
             (fst (scanForUnsafePatterns content unsafePatterns None \<sigma>))) =
     (if 1 \<le> n \<and> n \<le> length (str_split content newline) \<and> p \<in> set unsafePatterns \<and>
         matches (UnsafePattern.pattern p) (str_split content newline ! (n - 1))
      then 1 else 0)"
proof
  have none: "scanForUnsafePatterns content unsafePatterns None \<sigma> =
      (detectionsFrom 0 unsafePatterns (str_split content newline), \<sigma>)"
    by (rule scan_stateless) (simp add: catalog_stateless)
  have "sorted_wrt (precedes unsafePatterns)
      (fst (scanForUnsafePatterns content unsafePatterns None \<sigma>))"
    by (simp add: none detectionsFrom_sorted catalog_distinct)
  then show "sorted_wrt (precedes unsafePatterns)
      (fst (scanForUnsafePatterns content unsafePatterns filePath \<sigma>))"
    using scan_excluded_or_not [of content unsafePatterns filePath \<sigma>] by auto
  show "length (filter (\<lambda>d. lineNumber d = n \<and> Detection.pattern d = p)
             (fst (scanForUnsafePatterns content unsafePatterns None \<sigma>))) =
     (if 1 \<le> n \<and> n \<le> length (str_split content newline) \<and> p \<in> set unsafePatterns \<and>
         matches (UnsafePattern.pattern p) (str_split content newline ! (n - 1))
      then 1 else 0)"
    using detectionsFrom_count [OF catalog_distinct, of n p 0 "str_split content newline"]
    by (auto simp: none)
qed

subsection \<open>C2: self-exclusion\<close>

text \<open>
  \<^bold>\<open>C2\<close>, as the code has it. The check is \<^verbatim>\<open>includes\<close>, not ``ends with'': a file
  path that contains \<^verbatim>\<open>unsafe-queries.ts\<close> or \<^verbatim>\<open>unsafe-queries.js\<close> anywhere, in
  particular one that ends with it, gives the empty report, whatever the text and the rules;
  a path that contains neither gives the report of the scan without a path.
\<close>

theorem self_exclusion_substring:
  "(str_includes path (js ''unsafe-queries.ts'') \<or> str_includes path (js ''unsafe-queries.js'')
      \<longrightarrow> scanForUnsafePatterns content patterns (Some path) \<sigma> = ([], \<sigma>)) \<and>
   (suffix (js ''unsafe-queries.ts'') path \<or> suffix (js ''unsafe-queries.js'') path
      \<longrightarrow> scanForUnsafePatterns content patterns (Some path) \<sigma> = ([], \<sigma>)) \<and>
   (\<not> str_includes path (js ''unsafe-queries.ts'') \<and> \<not> str_includes path (js ''unsafe-queries.js'')
      \<longrightarrow> scanForUnsafePatterns content patterns (Some path) \<sigma> =
           scanForUnsafePatterns content patterns None \<sigma>)"
proof -
  have ne: "str_includes path (js ''unsafe-queries.ts'') \<or> str_includes path (js ''unsafe-queries.js'')
      \<Longrightarrow> path \<noteq> []"
    by (auto simp: js_def)
  show ?thesis
    using ne by (auto simp: scanForUnsafePatterns_visit dest: suffix_str_includes)
qed

text \<open>
  The theorem at the paths \<^verbatim>\<open>src/patterns/unsafe-queries.ts\<close> and \<^verbatim>\<open>src/app.ts\<close>.
\<close>

theorem self_exclusion_substring_witness:
  "suffix (js ''unsafe-queries.ts'') (js ''src/patterns/unsafe-queries.ts'') \<and>
   scanForUnsafePatterns (js ''db.eval(x)'') unsafePatterns
     (Some (js ''src/patterns/unsafe-queries.ts'')) (\<lambda>_. 0) = ([], \<lambda>_. 0) \<and>
   \<not> str_includes (js ''src/app.ts'') (js ''unsafe-queries.ts'') \<and>
   \<not> str_includes (js ''src/app.ts'') (js ''unsafe-queries.js'') \<and>
   scanForUnsafePatterns (js ''db.eval(x)'') unsafePatterns (Some (js ''src/app.ts'')) (\<lambda>_. 0) =
     scanForUnsafePatterns (js ''db.eval(x)'') unsafePatterns None (\<lambda>_. 0)"
proof -
  have "js ''src/patterns/unsafe-queries.ts'' = js ''src/patterns/'' @ js ''unsafe-queries.ts''"
    by (simp add: js_def)
  then have a: "suffix (js ''unsafe-queries.ts'') (js ''src/patterns/unsafe-queries.ts'')"
    by (simp add: suffix_def)
  have b: "\<not> str_includes (js ''src/app.ts'') (js ''unsafe-queries.ts'') \<and>
      \<not> str_includes (js ''src/app.ts'') (js ''unsafe-queries.js'')"
    by (simp add: js_def)
  from a b
    self_exclusion_substring [of "js ''src/patterns/unsafe-queries.ts''" "js ''db.eval(x)''"
      unsafePatterns "\<lambda>_. 0"]
    self_exclusion_substring [of "js ''src/app.ts''" "js ''db.eval(x)''" unsafePatterns "\<lambda>_. 0"]
  show ?thesis by blast
qed

text \<open>
  The claim as it is written, with ``ends with'' for the convention, fails: the path
  \<^verbatim>\<open>src/unsafe-queries.tsx\<close> ends with neither name, and the scan with this path returns
  nothing where the scan without a path reports \<^verbatim>\<open>db.eval(x)\<close>.
\<close>

theorem self_exclusion_suffix_counterexample:
  "\<not> suffix (js ''unsafe-queries.ts'') (js ''src/unsafe-queries.tsx'') \<and>
   \<not> suffix (js ''unsafe-queries.js'') (js ''src/unsafe-queries.tsx'') \<and>
   fst (scanForUnsafePatterns (js ''db.eval(x)'') unsafePatterns
          (Some (js ''src/unsafe-queries.tsx'')) (\<lambda>_. 0)) = [] \<and>
   fst (scanForUnsafePatterns (js ''db.eval(x)'') unsafePatterns None (\<lambda>_. 0)) \<noteq> []"
proof -
  have a: "\<not> suffix (js ''unsafe-queries.ts'') (js ''src/unsafe-queries.tsx'') \<and>
      \<not> suffix (js ''unsafe-queries.js'') (js ''src/unsafe-queries.tsx'')"
    by (simp add: js_def suffix_to_prefix)
  have "str_includes (js ''src/unsafe-queries.tsx'') (js ''unsafe-queries.ts'')"
    by (simp add: js_def)
  moreover have "js ''src/unsafe-queries.tsx'' \<noteq> []"
    by (simp add: js_def)
  ultimately have b: "fst (scanForUnsafePatterns (js ''db.eval(x)'') unsafePatterns
          (Some (js ''src/unsafe-queries.tsx'')) (\<lambda>_. 0)) = []"
    by (auto simp: scanForUnsafePatterns_visit)
  have c: "fst (scanForUnsafePatterns (js ''db.eval(x)'') unsafePatterns None (\<lambda>_. 0)) \<noteq> []"
    using eval_line_reported [of "\<lambda>_. 0"] by auto
  from a b c show ?thesis by blast
qed

subsection \<open>C3: line numbers and matched text\<close>

text \<open>
  \<^bold>\<open>C3.\<close> For every text, every array of rules, every file path and every store: a
  detection of the report has a line number between 1 and the number of lines of the text,
  and its matched text is that line, trimmed.
\<close>

theorem detection_line_fidelity:
  "d \<in> set (fst (scanForUnsafePatterns content patterns filePath \<sigma>)) \<Longrightarrow>
   1 \<le> lineNumber d \<and> lineNumber d \<le> length (str_split content newline) \<and>
   matchedText d = trim (str_split content newline ! (lineNumber d - 1))"
proof -
  assume d: "d \<in> set (fst (scanForUnsafePatterns content patterns filePath \<sigma>))"
  from outer_loop [of 0 patterns "str_split content newline" "[]" \<sigma>]
  obtain new \<tau>' where
    run: "forEachFrom 0 (\<lambda>line index. forEachFrom 0 (visit line index) patterns)
            (str_split content newline) ([], \<sigma>) = (new, \<tau>')"
    and new: "\<forall>d \<in> set new. \<exists>i < length (str_split content newline). \<exists>p \<in> set patterns.
           d = detection p (0 + i) (str_split content newline ! i)"
    by auto
  from d have "d \<in> set new"
    by (auto simp: scanForUnsafePatterns_visit run split: if_splits)
  with new obtain i p where "i < length (str_split content newline)"
    "d = detection p i (str_split content newline ! i)" by auto
  then show ?thesis by (simp add: detection_def)
qed

text \<open>
  The theorem at the text \<^verbatim>\<open>db.eval(x)\<close>: the detection of \<^verbatim>\<open>EVAL_USAGE\<close> on line 1.
\<close>

theorem detection_line_fidelity_witness:
  "detection EVAL_USAGE 0 (js ''db.eval(x)'')
     \<in> set (fst (scanForUnsafePatterns (js ''db.eval(x)'') unsafePatterns None (\<lambda>_. 0))) \<and>
   lineNumber (detection EVAL_USAGE 0 (js ''db.eval(x)'')) = 1 \<and>
   length (str_split (js ''db.eval(x)'') newline) = 1 \<and>
   matchedText (detection EVAL_USAGE 0 (js ''db.eval(x)'')) =
     trim (str_split (js ''db.eval(x)'') newline ! 0)"
proof -
  have h: "detection EVAL_USAGE 0 (js ''db.eval(x)'')
     \<in> set (fst (scanForUnsafePatterns (js ''db.eval(x)'') unsafePatterns None (\<lambda>_. 0)))"
    by (rule eval_line_reported)
  from detection_line_fidelity [OF h] h show ?thesis
    by (simp add: eval_line_one_line detection_def)
qed

subsection \<open>C4: determinism\<close>

text \<open>
  \<^bold>\<open>C4.\<close> No expression of the catalog is global or sticky, so a scan with the catalog
  neither reads nor writes the store: the detections are the same from every store, and the
  store after the scan is the store before it. Two calls with the same arguments therefore
  return the same detections, whatever was scanned between them.
\<close>

theorem scan_deterministic:
  "fst (scanForUnsafePatterns content unsafePatterns filePath \<sigma>) =
     fst (scanForUnsafePatterns content unsafePatterns filePath \<sigma>') \<and>
   snd (scanForUnsafePatterns content unsafePatterns filePath \<sigma>) = \<sigma>"
proof -
  have "forEachFrom 0 (\<lambda>line index. forEachFrom 0 (visit line index) unsafePatterns)
          (str_split content newline) ([], \<tau>) =
        ([] @ detectionsFrom 0 unsafePatterns (str_split content newline), \<tau>)" for \<tau>
    by (rule outer_loop_stateless) (simp add: catalog_stateless)
  then show ?thesis by (simp add: scanForUnsafePatterns_visit)
qed

subsection \<open>C5: totality\<close>

text \<open>
  \<^bold>\<open>C5.\<close> The scan is a total function without an error value: the loops are recursions
  over the lines and the rules, the search is a recursion over the rest of the line, and the
  matcher is a recursion over the pattern whose repetitions end because an iteration that
  does not advance fails. For every text, file path and store, the scan with the catalog
  returns a list with at most one detection for each line and rule, and leaves the store as
  it was.
\<close>

theorem scan_total:
  "\<exists>detections. scanForUnsafePatterns content unsafePatterns filePath \<sigma> = (detections, \<sigma>) \<and>
     length detections \<le> length (str_split content newline) * length unsafePatterns"
proof -
  from outer_loop [of 0 unsafePatterns "str_split content newline" "[]" \<sigma>]
  obtain new \<tau>' where
    run: "forEachFrom 0 (\<lambda>line index. forEachFrom 0 (visit line index) unsafePatterns)
            (str_split content newline) ([], \<sigma>) = (new, \<tau>')"
    and len: "length new \<le> length (str_split content newline) * length unsafePatterns"
    by auto
  have "forEachFrom 0 (\<lambda>line index. forEachFrom 0 (visit line index) unsafePatterns)
          (str_split content newline) ([], \<sigma>) =
        ([] @ detectionsFrom 0 unsafePatterns (str_split content newline), \<sigma>)"
    by (rule outer_loop_stateless) (simp add: catalog_stateless)
  with run have "\<tau>' = \<sigma>" by simp
  with run len show ?thesis by (simp add: scanForUnsafePatterns_visit)
qed

subsection \<open>C6: the safe line\<close>

text \<open>
  \<^bold>\<open>C6\<close> does not hold of the code. The line
  \<^verbatim>\<open>db.users.find({ active: true, role: "user" });\<close> is the safe example that the
  catalog gives for \<^verbatim>\<open>UNCONSTRAINED_QUERY\<close>, and the scan of it with the catalog
  reports, on line 1, the injection rule \<^verbatim>\<open>FUNCTION_PARAMETER_INJECTION\<close> with high
  severity: the expression of the rule takes the literal \<^verbatim>\<open>true\<close> in
  \<^verbatim>\<open>.find({ active: true\<close> for a parameter. The scan does not report
  \<^verbatim>\<open>UNCONSTRAINED_QUERY\<close>.
\<close>

theorem safe_line_flagged:
  "safeExample UNCONSTRAINED_QUERY = scenario_safe \<and>
   (\<exists>d \<in> set (fst (scanForUnsafePatterns scenario_safe unsafePatterns None \<sigma>)).
      id' (Detection.pattern d) = js ''FUNCTION_PARAMETER_INJECTION'' \<and>
      severity (Detection.pattern d) = High \<and> lineNumber d = 1) \<and>
   UNCONSTRAINED_QUERY \<notin>
     Detection.pattern ` set (fst (scanForUnsafePatterns scenario_safe unsafePatterns None \<sigma>))"
proof -
  have flagged: "detection FUNCTION_PARAMETER_INJECTION 0 scenario_safe
      \<in> set (fst (scanForUnsafePatterns scenario_safe unsafePatterns None \<sigma>))"
    by (simp add: safe_line_scan)
  have rule: "id' (Detection.pattern (detection FUNCTION_PARAMETER_INJECTION 0 scenario_safe))
      = js ''FUNCTION_PARAMETER_INJECTION'' \<and>
    severity (Detection.pattern (detection FUNCTION_PARAMETER_INJECTION 0 scenario_safe)) = High \<and>
    lineNumber (detection FUNCTION_PARAMETER_INJECTION 0 scenario_safe) = 1"
    by (simp add: detection_def FUNCTION_PARAMETER_INJECTION_def)
  have "addr (UnsafePattern.pattern UNCONSTRAINED_QUERY)
      \<noteq> addr (UnsafePattern.pattern FUNCTION_PARAMETER_INJECTION)"
    "addr (UnsafePattern.pattern UNCONSTRAINED_QUERY)
      \<noteq> addr (UnsafePattern.pattern MONGOOSE_QUERY_EXEC_MISSING)"
    by (simp_all add: catalog_patterns UNCONSTRAINED_QUERY_pattern_def
        FUNCTION_PARAMETER_INJECTION_pattern_def MONGOOSE_QUERY_EXEC_MISSING_pattern_def RegExp_i_def)
  then have "UNCONSTRAINED_QUERY \<noteq> FUNCTION_PARAMETER_INJECTION"
    "UNCONSTRAINED_QUERY \<noteq> MONGOOSE_QUERY_EXEC_MISSING"
    by auto
  then have absent: "UNCONSTRAINED_QUERY \<notin>
     Detection.pattern ` set (fst (scanForUnsafePatterns scenario_safe unsafePatterns None \<sigma>))"
    by (simp add: safe_line_scan detection_def)
  from flagged rule absent show ?thesis
    using safe_example_of_UNCONSTRAINED_QUERY by blast
qed

subsection \<open>C7: the empty text\<close>

text \<open>
  \<^bold>\<open>C7\<close>, as the code has it. The empty text is one empty line, and the rules are tested
  on it. The report is empty for the catalog, and for every array of rules none of which
  matches the empty line.
\<close>

theorem empty_text_no_findings:
  "scanForUnsafePatterns [] unsafePatterns filePath \<sigma> = ([], \<sigma>) \<and>
   ((\<forall>p \<in> set patterns. \<forall>\<tau>. \<not> fst (test (UnsafePattern.pattern p) [] \<tau>)) \<longrightarrow>
      fst (scanForUnsafePatterns [] patterns filePath \<sigma>) = [])"
proof
  have "detectionsOfLine unsafePatterns 0 [] = []"
    using catalog_empty_line by (auto simp: detectionsOfLine_def filter_empty_conv)
  then have "scanForUnsafePatterns [] unsafePatterns None \<sigma> = ([], \<sigma>)"
    by (simp add: one_line_report [OF _ str_split_empty] catalog_stateless)
  then show "scanForUnsafePatterns [] unsafePatterns filePath \<sigma> = ([], \<sigma>)"
    using scan_excluded_or_not [of "[]" unsafePatterns filePath \<sigma>] by auto
  show "(\<forall>p \<in> set patterns. \<forall>\<tau>. \<not> fst (test (UnsafePattern.pattern p) [] \<tau>)) \<longrightarrow>
      fst (scanForUnsafePatterns [] patterns filePath \<sigma>) = []"
    by (auto simp: scanForUnsafePatterns_visit str_split_empty inner_loop_no_match)
qed

text \<open>
  The theorem at the array of the one rule \<^verbatim>\<open>EVAL_USAGE\<close>.
\<close>

theorem empty_text_no_findings_witness:
  "\<not> fst (test (UnsafePattern.pattern EVAL_USAGE) [] (\<lambda>_. 0)) \<and>
   fst (scanForUnsafePatterns [] [EVAL_USAGE] None (\<lambda>_. 0)) = []"
proof -
  have "EVAL_USAGE \<in> set unsafePatterns" by (simp add: unsafePatterns_def)
  then have h: "\<forall>p \<in> set [EVAL_USAGE]. \<forall>\<tau>. \<not> fst (test (UnsafePattern.pattern p) [] \<tau>)"
    by (simp add: test_stateless catalog_stateless catalog_empty_line)
  with empty_text_no_findings [of None "\<lambda>_. 0" "[EVAL_USAGE]"] show ?thesis by simp
qed

text \<open>
  The claim as it is written, for every array of rules, fails for a rule that matches the
  empty line: with \<^verbatim>\<open>/x*/i\<close> for its expression, a rule is reported on line 1 of the
  empty text.
\<close>

theorem empty_text_counterexample:
  "fst (scanForUnsafePatterns []
          [EVAL_USAGE\<lparr>UnsafePattern.pattern := RegExp_i 5 (many (Char CHR ''x''))\<rparr>]
          None (\<lambda>_. 0)) =
     [detection (EVAL_USAGE\<lparr>UnsafePattern.pattern := RegExp_i 5 (many (Char CHR ''x''))\<rparr>) 0 []]"
proof -
  have "stateless (RegExp_i 5 (many (Char CHR ''x'')))"
    by (simp add: stateless_def RegExp_i_def)
  moreover have "matches (RegExp_i 5 (many (Char CHR ''x''))) []"
    by (simp add: regex_eval)
  ultimately show ?thesis
    by (simp add: one_line_report [OF _ str_split_empty] detectionsOfLine_def)
qed

subsection \<open>C8: the line with \<^verbatim>\<open>$where\<close>\<close>

text \<open>
  \<^bold>\<open>C8.\<close> The scan of the line
  \<^verbatim>\<open>db.users.find({ $where: "this.username === '" + username + "'" });\<close> with the
  catalog reports, on line 1, the rule \<^verbatim>\<open>NOSQL_INJECTION_OBJECT\<close>, whose severity is
  high.
\<close>

theorem where_line_finding:
  "\<exists>d \<in> set (fst (scanForUnsafePatterns scenario_where unsafePatterns None \<sigma>)).
     id' (Detection.pattern d) = js ''NOSQL_INJECTION_OBJECT'' \<and>
     severity (Detection.pattern d) = High \<and> lineNumber d = 1"
proof -
  have "NOSQL_INJECTION_OBJECT \<in> set unsafePatterns" by (simp add: unsafePatterns_def)
  then have "detection NOSQL_INJECTION_OBJECT 0 scenario_where
      \<in> set (detectionsOfLine unsafePatterns 0 scenario_where)"
    using where_NOSQL_INJECTION_OBJECT by (auto simp: detectionsOfLine_def)
  then have "detection NOSQL_INJECTION_OBJECT 0 scenario_where
      \<in> set (fst (scanForUnsafePatterns scenario_where unsafePatterns None \<sigma>))"
    by (simp add: one_line_report [OF _ scenario_where_one_line] catalog_stateless)
  moreover have "id' (Detection.pattern (detection NOSQL_INJECTION_OBJECT 0 scenario_where))
      = js ''NOSQL_INJECTION_OBJECT'' \<and>
    severity (Detection.pattern (detection NOSQL_INJECTION_OBJECT 0 scenario_where)) = High \<and>
    lineNumber (detection NOSQL_INJECTION_OBJECT 0 scenario_where) = 1"
    by (simp add: detection_def NOSQL_INJECTION_OBJECT_def)
  ultimately show ?thesis by blast
qed

subsection \<open>C9: colors\<close>

text \<open>
  \<^bold>\<open>C9.\<close> \<^verbatim>\<open>getSeverityColor\<close> returns three different colors for \<^verbatim>\<open>high\<close>,
  \<^verbatim>\<open>medium\<close> and \<^verbatim>\<open>low\<close>, and one fixed color, different from the three, for every
  other string.
\<close>

theorem getSeverityColor_total:
  "getSeverityColor (js ''high'') = js ''#FF4D4F'' \<and>
   getSeverityColor (js ''medium'') = js ''#FAAD14'' \<and>
   getSeverityColor (js ''low'') = js ''#52C41A'' \<and>
   distinct [js ''#FF4D4F'', js ''#FAAD14'', js ''#52C41A'', js ''#1890FF''] \<and>
   (sev \<noteq> js ''high'' \<and> sev \<noteq> js ''medium'' \<and> sev \<noteq> js ''low'' \<longrightarrow>
      getSeverityColor sev = js ''#1890FF'')"
  by (simp add: getSeverityColor_def js_def)

text \<open>
  The theorem at the string \<^verbatim>\<open>critical\<close>.
\<close>

theorem getSeverityColor_total_witness:
  "js ''critical'' \<noteq> js ''high'' \<and> js ''critical'' \<noteq> js ''medium'' \<and>
   js ''critical'' \<noteq> js ''low'' \<and> getSeverityColor (js ''critical'') = js ''#1890FF''"
proof -
  have h: "js ''critical'' \<noteq> js ''high'' \<and> js ''critical'' \<noteq> js ''medium'' \<and>
      js ''critical'' \<noteq> js ''low''"
    by (simp add: js_def)
  with getSeverityColor_total [of "js ''critical''"] show ?thesis by blast
qed

subsection \<open>C10: the two versions\<close>

text \<open>
  \<^bold>\<open>C10.\<close> When the file path is omitted, or contains neither \<^verbatim>\<open>unsafe-queries.ts\<close>
  nor \<^verbatim>\<open>unsafe-queries.js\<close>, the second version of the scan returns what the first
  version returns, for every text, every array of rules and every store.
\<close>

theorem versions_agree:
  "filePath = None \<or>
   (\<exists>path. filePath = Some path \<and> \<not> str_includes path (js ''unsafe-queries.ts'') \<and>
      \<not> str_includes path (js ''unsafe-queries.js'')) \<Longrightarrow>
   scanForUnsafePatterns content patterns filePath \<sigma> =
     scanForUnsafePatterns_earlier content patterns \<sigma>"
  by (auto simp: scanForUnsafePatterns_visit scanForUnsafePatterns_earlier_visit)

text \<open>
  The theorem at the path \<^verbatim>\<open>src/app.ts\<close>.
\<close>

theorem versions_agree_witness:
  "scanForUnsafePatterns (js ''db.eval(x)'') unsafePatterns (Some (js ''src/app.ts'')) (\<lambda>_. 0) =
     scanForUnsafePatterns_earlier (js ''db.eval(x)'') unsafePatterns (\<lambda>_. 0)"
proof -
  have "\<not> str_includes (js ''src/app.ts'') (js ''unsafe-queries.ts'') \<and>
      \<not> str_includes (js ''src/app.ts'') (js ''unsafe-queries.js'')"
    by (simp add: js_def)
  then show ?thesis by (intro versions_agree) simp
qed

end
